theory Spec2Isabelle
  imports Complex_Main
begin

section \<open>Python values\<close>

text \<open>
  The three scripts \<^verbatim>\<open>fx_encoder_detect.py\<close>, \<^verbatim>\<open>llm2fx_detect.py\<close> and
  \<^verbatim>\<open>openamp_detect.py\<close> receive a value from a foreign library, rebuild part of it and
  hand the result to \<^verbatim>\<open>json.dumps\<close>. A float is represented by the rational it denotes
  or by one of the three values that are not finite; no arithmetic is done on floats.
  A dictionary is an association list in insertion order; its keys are values of any
  kind, as they are in Python (where the keys of one dictionary are distinct and hashable).
  \<open>PObj\<close> is any other object, named by its class: it has no \<^verbatim>\<open>get\<close> and no \<^verbatim>\<open>items\<close>,
  it is not iterable, and \<^verbatim>\<open>json.dumps\<close> rejects it.
\<close>

datatype pyfloat = Finite rat | PosInf | NegInf | NaN

datatype pyval =
    PNone
  | PBool bool
  | PInt int
  | PFloat pyfloat
  | PStr string
  | PList "pyval list"
  | PTuple "pyval list"
  | PDict "(pyval \<times> pyval) list"
  | PObj string

text \<open>The dictionary display \<^verbatim>\<open>{"k": v, ...}\<close>, whose keys are string literals.\<close>

definition py_dict :: "(string \<times> pyval) list \<Rightarrow> pyval" where
  [simp]: "py_dict kvs = PDict (map (\<lambda>kv. (PStr (fst kv), snd kv)) kvs)"

text \<open>
  Exceptions. \<open>ImportError\<close> and \<open>OtherError\<close> are raised by the foreign library and carry
  \<^verbatim>\<open>str(e)\<close>; \<open>OtherError\<close> is any \<^verbatim>\<open>Exception\<close> that is not an \<^verbatim>\<open>ImportError\<close>. The remaining
  four are raised by the interpreter inside the scripts: \<^verbatim>\<open>AttributeError\<close> for a method the
  value does not have, \<^verbatim>\<open>TypeError\<close> for a \<^verbatim>\<open>for\<close> over a value that is not iterable, the
  \<^verbatim>\<open>TypeError\<close>, \<^verbatim>\<open>ValueError\<close> or \<^verbatim>\<open>OverflowError\<close> of \<^verbatim>\<open>float\<close>, and the \<^verbatim>\<open>TypeError\<close> or
  \<^verbatim>\<open>ValueError\<close> of \<^verbatim>\<open>json.dumps\<close>. None of the four is an \<^verbatim>\<open>ImportError\<close>.
\<close>

datatype exn =
    ImportError string
  | OtherError string
  | NoAttribute pyval string
  | NotIterable pyval
  | FloatRejected pyval
  | NotSerializable pyval

text \<open>
  What the interpreter and the standard library decide: how \<^verbatim>\<open>float\<close> rounds an integer
  (\<open>None\<close>: too large), parses a string (\<open>None\<close>: not a number) or converts an object
  (\<open>None\<close>: no conversion), whether it writes an integer as decimal text (CPython from
  3.11 refuses above 4300 digits), how \<^verbatim>\<open>pathlib.Path\<close> spells a path, and how the
  interpreter words the message of its own exceptions.
\<close>

record runtime =
  float_of_int :: "int \<Rightarrow> pyfloat option"
  float_of_str :: "string \<Rightarrow> pyfloat option"
  float_of_obj :: "string \<Rightarrow> pyfloat option"
  int_digits_ok :: "int \<Rightarrow> bool"
  str_path :: "string \<Rightarrow> string"
  builtin_msg :: "exn \<Rightarrow> string"

fun str_exn :: "runtime \<Rightarrow> exn \<Rightarrow> string" where
  "str_exn rt (ImportError m) = m"
| "str_exn rt (OtherError m) = m"
| "str_exn rt e = builtin_msg rt e"

definition bind_exn :: "exn + 'a \<Rightarrow> ('a \<Rightarrow> exn + 'b) \<Rightarrow> exn + 'b" where
  "bind_exn r f = (case r of Inl e \<Rightarrow> Inl e | Inr x \<Rightarrow> f x)"

text \<open>\<^verbatim>\<open>v.get(k, d)\<close> for a string \<open>k\<close>: defined on dictionaries only.\<close>

fun py_get :: "pyval \<Rightarrow> string \<Rightarrow> pyval \<Rightarrow> exn + pyval" where
  "py_get (PDict kvs) k d = Inr (case map_of kvs (PStr k) of Some v \<Rightarrow> v | None \<Rightarrow> d)"
| "py_get v k d = Inl (NoAttribute v ''get'')"

text \<open>\<^verbatim>\<open>v.items()\<close>: defined on dictionaries only.\<close>

fun py_items :: "pyval \<Rightarrow> exn + (pyval \<times> pyval) list" where
  "py_items (PDict kvs) = Inr kvs"
| "py_items v = Inl (NoAttribute v ''items'')"

text \<open>
  The values a \<^verbatim>\<open>for\<close> loop visits: the elements of a list or a tuple, the keys of a
  dictionary, the characters of a string.
\<close>

fun py_iter :: "pyval \<Rightarrow> exn + pyval list" where
  "py_iter (PList xs) = Inr xs"
| "py_iter (PTuple xs) = Inr xs"
| "py_iter (PDict kvs) = Inr (map fst kvs)"
| "py_iter (PStr s) = Inr (map (\<lambda>c. PStr [c]) s)"
| "py_iter v = Inl (NotIterable v)"

text \<open>\<^verbatim>\<open>float(v)\<close>: a float, or an exception.\<close>

fun py_float :: "runtime \<Rightarrow> pyval \<Rightarrow> exn + pyfloat" where
  "py_float rt (PFloat f) = Inr f"
| "py_float rt (PBool b) = Inr (Finite (if b then 1 else 0))"
| "py_float rt (PInt n) =
     (case float_of_int rt n of Some f \<Rightarrow> Inr f | None \<Rightarrow> Inl (FloatRejected (PInt n)))"
| "py_float rt (PStr s) =
     (case float_of_str rt s of Some f \<Rightarrow> Inr f | None \<Rightarrow> Inl (FloatRejected (PStr s)))"
| "py_float rt (PObj c) =
     (case float_of_obj rt c of Some f \<Rightarrow> Inr f | None \<Rightarrow> Inl (FloatRejected (PObj c)))"
| "py_float rt v = Inl (FloatRejected v)"

text \<open>
  \<^verbatim>\<open>json.dumps(v)\<close> writes lists and tuples as arrays and dictionaries as objects. It
  raises on an object it cannot serialise, on an integer the interpreter does not write
  as decimal text, and on a dictionary key that is not a string, a number, a truth value
  or \<^verbatim>\<open>None\<close>. A line printed on standard output is represented by the value whose
  serialisation it is.
\<close>

fun key_serializable :: "runtime \<Rightarrow> pyval \<Rightarrow> bool" where
  "key_serializable rt (PStr s) = True"
| "key_serializable rt (PInt n) = int_digits_ok rt n"
| "key_serializable rt (PFloat f) = True"
| "key_serializable rt (PBool b) = True"
| "key_serializable rt PNone = True"
| "key_serializable rt v = False"

fun serializable :: "runtime \<Rightarrow> pyval \<Rightarrow> bool" where
  "serializable rt (PObj c) = False"
| "serializable rt (PInt n) = int_digits_ok rt n"
| "serializable rt (PList xs) = list_all (serializable rt) xs"
| "serializable rt (PTuple xs) = list_all (serializable rt) xs"
| "serializable rt (PDict kvs) =
     (list_all (key_serializable rt) (map fst kvs) \<and> list_all (serializable rt) (map snd kvs))"
| "serializable rt v = True"

definition json_dumps :: "runtime \<Rightarrow> pyval \<Rightarrow> exn + pyval" where
  "json_dumps rt v = (if serializable rt v then Inr v else Inl (NotSerializable v))"

section \<open>The process\<close>

text \<open>
  A statement inside \<^verbatim>\<open>try\<close> takes the lines printed so far and returns them, extended
  by what it printed, with its value or the exception it raised. The calls into the
  foreign library are taken to write nothing on standard output and either to return or
  to raise an \<^verbatim>\<open>Exception\<close>. A call that fails on the way into the library (the module
  or the object lacks the attribute, the result of \<^verbatim>\<open>librosa.load\<close> does not unpack into two
  values) raises such an exception inside \<^verbatim>\<open>try\<close> and is an \<open>OtherError\<close> of that call.

  \<^verbatim>\<open>Path.exists()\<close> is called before \<^verbatim>\<open>try\<close>. It returns a truth value or raises an
  \<^verbatim>\<open>OSError\<close> (\<open>None\<close>), as it does for a name that is too long or a directory that may
  not be searched; the exception is not caught, so the run ends with a traceback on
  standard error, nothing on standard output, and status 1.
\<close>

type_synonym 'a io = "pyval list \<Rightarrow> (exn + 'a) \<times> pyval list"

definition io_lift :: "exn + 'a \<Rightarrow> 'a io" where
  "io_lift r out = (r, out)"

definition io_bind :: "'a io \<Rightarrow> ('a \<Rightarrow> 'b io) \<Rightarrow> 'b io" where
  "io_bind m f out = (case m out of (Inl e, out') \<Rightarrow> (Inl e, out') | (Inr x, out') \<Rightarrow> f x out')"

definition py_print :: "pyval \<Rightarrow> unit io" where
  "py_print doc out = (Inr (), out @ [doc])"

text \<open>What a run leaves behind: the documents on standard output and the exit status.\<close>

record proc =
  printed :: "pyval list"
  status :: nat

section \<open>llm2fx_detect.py\<close>

record 'p llm2fx_lib =
  import_llm2fx :: "exn + unit"
  llm2fx_from_pretrained :: "exn + 'p"
  analyze_audio :: "'p \<Rightarrow> string \<Rightarrow> exn + pyval"

text \<open>The dictionary display of lines 32 to 36, its values evaluated from left to right.\<close>

definition llm2fx_effect :: "pyval \<Rightarrow> exn + pyval" where
  "llm2fx_effect effect =
     bind_exn (py_get effect ''type'' (PStr ''unknown'')) (\<lambda>name.
     bind_exn (py_get effect ''confidence'' (PFloat (Finite (1/2)))) (\<lambda>conf.
     bind_exn (py_get effect ''params'' (PDict [])) (\<lambda>params.
       Inr (py_dict [(''name'', name), (''confidence'', conf), (''parameters'', params)]))))"

text \<open>The loop of lines 31 to 36, \<open>effects\<close> the list built so far.\<close>

fun llm2fx_loop :: "pyval list \<Rightarrow> pyval list \<Rightarrow> exn + pyval list" where
  "llm2fx_loop [] effects = Inr effects"
| "llm2fx_loop (effect # rest) effects =
     bind_exn (llm2fx_effect effect) (\<lambda>d. llm2fx_loop rest (effects @ [d]))"

text \<open>The body of \<^verbatim>\<open>try\<close>, lines 25 to 42.\<close>

definition llm2fx_body :: "runtime \<Rightarrow> 'p llm2fx_lib \<Rightarrow> string \<Rightarrow> unit io" where
  "llm2fx_body rt lib audio_path =
     io_bind (io_lift (import_llm2fx lib)) (\<lambda>_.
     io_bind (io_lift (llm2fx_from_pretrained lib)) (\<lambda>predictor.
     io_bind (io_lift (analyze_audio lib predictor audio_path)) (\<lambda>result.
     io_bind (io_lift (py_get result ''effect_chain'' (PList []))) (\<lambda>chain.
     io_bind (io_lift (py_iter chain)) (\<lambda>entries.
     io_bind (io_lift (llm2fx_loop entries [])) (\<lambda>effects.
     io_bind (io_lift (json_dumps rt
         (py_dict [(''effects'', PList effects), (''embeddings'', PList [])]))) (\<lambda>line.
       py_print line)))))))"

definition llm2fx_main ::
  "runtime \<Rightarrow> string list \<Rightarrow> (string \<Rightarrow> bool option) \<Rightarrow> 'p llm2fx_lib \<Rightarrow> proc" where
  "llm2fx_main rt argv path_exists lib =
     (if length argv < 2 then
        \<lparr>printed = [py_dict [(''error'', PStr ''Usage: llm2fx_detect.py <audio_file>'')]],
         status = 1\<rparr>
      else
        let audio_path = str_path rt (argv ! 1) in
        (case path_exists audio_path of
           None \<Rightarrow> \<lparr>printed = [], status = 1\<rparr>
         | Some False \<Rightarrow>
             \<lparr>printed = [py_dict [(''error'', PStr (''File not found: '' @ audio_path))]],
              status = 1\<rparr>
         | Some True \<Rightarrow>
              (case llm2fx_body rt lib audio_path [] of
                 (Inr _, out) \<Rightarrow> \<lparr>printed = out, status = 0\<rparr>
               | (Inl (ImportError m), out) \<Rightarrow>
                   \<lparr>printed = out @ [py_dict [(''error'', PStr (''Import failed: '' @ m)),
                      (''install'',
                       PStr ''pip install llm2fx-tools  # See: https://arxiv.org/abs/2512.01559'')]],
                    status = 1\<rparr>
               | (Inl e, out) \<Rightarrow>
                   \<lparr>printed = out @ [py_dict [(''error'', PStr (str_exn rt e))]], status = 1\<rparr>)))"

section \<open>fx_encoder_detect.py\<close>

record 'enc fx_encoder_lib =
  import_fx_encoder :: "exn + unit"
  fx_from_pretrained :: "exn + 'enc"
  analyze :: "'enc \<Rightarrow> string \<Rightarrow> exn + pyval"

text \<open>The loop of lines 32 and 33 over the items of the raw mapping.\<close>

fun fx_encoder_loop :: "runtime \<Rightarrow> (pyval \<times> pyval) list \<Rightarrow> pyval list \<Rightarrow> exn + pyval list" where
  "fx_encoder_loop rt [] effects = Inr effects"
| "fx_encoder_loop rt ((name, conf) # rest) effects =
     bind_exn (py_float rt conf) (\<lambda>f.
       fx_encoder_loop rt rest (effects @ [py_dict [(''name'', name), (''confidence'', PFloat f)]]))"

text \<open>The body of \<^verbatim>\<open>try\<close>, lines 25 to 39.\<close>

definition fx_encoder_body :: "runtime \<Rightarrow> 'enc fx_encoder_lib \<Rightarrow> string \<Rightarrow> unit io" where
  "fx_encoder_body rt lib audio_path =
     io_bind (io_lift (import_fx_encoder lib)) (\<lambda>_.
     io_bind (io_lift (fx_from_pretrained lib)) (\<lambda>encoder.
     io_bind (io_lift (analyze lib encoder audio_path)) (\<lambda>result.
     io_bind (io_lift (py_get result ''effects'' (PDict []))) (\<lambda>raw.
     io_bind (io_lift (py_items raw)) (\<lambda>items.
     io_bind (io_lift (fx_encoder_loop rt items [])) (\<lambda>effects.
     io_bind (io_lift (py_get result ''embeddings'' (PList []))) (\<lambda>embeddings.
     io_bind (io_lift (json_dumps rt
         (py_dict [(''effects'', PList effects), (''embeddings'', embeddings)]))) (\<lambda>line.
       py_print line))))))))"

definition fx_encoder_main ::
  "runtime \<Rightarrow> string list \<Rightarrow> (string \<Rightarrow> bool option) \<Rightarrow> 'enc fx_encoder_lib \<Rightarrow> proc" where
  "fx_encoder_main rt argv path_exists lib =
     (if length argv < 2 then
        \<lparr>printed = [py_dict [(''error'', PStr ''Usage: fx_encoder_detect.py <audio_file>'')]],
         status = 1\<rparr>
      else
        let audio_path = str_path rt (argv ! 1) in
        (case path_exists audio_path of
           None \<Rightarrow> \<lparr>printed = [], status = 1\<rparr>
         | Some False \<Rightarrow>
             \<lparr>printed = [py_dict [(''error'', PStr (''File not found: '' @ audio_path))]],
              status = 1\<rparr>
         | Some True \<Rightarrow>
              (case fx_encoder_body rt lib audio_path [] of
                 (Inr _, out) \<Rightarrow> \<lparr>printed = out, status = 0\<rparr>
               | (Inl (ImportError m), out) \<Rightarrow>
                   \<lparr>printed = out @ [py_dict [(''error'', PStr ''fx_encoder not installed''),
                      (''install'',
                       PStr ''git clone https://github.com/SonyResearch/Fx-Encoder_PlusPlus && pip install -r requirements.txt'')]],
                    status = 1\<rparr>
               | (Inl e, out) \<Rightarrow>
                   \<lparr>printed = out @ [py_dict [(''error'', PStr (str_exn rt e))]], status = 1\<rparr>)))"

section \<open>openamp_detect.py\<close>

record ('enc, 'audio, 'sr) openamp_lib =
  import_librosa :: "exn + unit"
  import_openamp :: "exn + unit"
  librosa_load :: "string \<Rightarrow> exn + ('audio \<times> 'sr)"
  openamp_from_pretrained :: "exn + 'enc"
  openamp_extract :: "'enc \<Rightarrow> 'audio \<Rightarrow> 'sr \<Rightarrow> exn + pyval"

text \<open>The loop of lines 33 and 34 over the items of the raw mapping.\<close>

fun openamp_loop :: "runtime \<Rightarrow> (pyval \<times> pyval) list \<Rightarrow> pyval list \<Rightarrow> exn + pyval list" where
  "openamp_loop rt [] effects = Inr effects"
| "openamp_loop rt ((name, conf) # rest) effects =
     bind_exn (py_float rt conf) (\<lambda>f.
       openamp_loop rt rest (effects @ [py_dict [(''name'', name), (''confidence'', PFloat f)]]))"

text \<open>The body of \<^verbatim>\<open>try\<close>, lines 25 to 40.\<close>

definition openamp_body ::
  "runtime \<Rightarrow> ('enc, 'audio, 'sr) openamp_lib \<Rightarrow> string \<Rightarrow> unit io" where
  "openamp_body rt lib audio_path =
     io_bind (io_lift (import_librosa lib)) (\<lambda>_.
     io_bind (io_lift (import_openamp lib)) (\<lambda>_.
     io_bind (io_lift (librosa_load lib audio_path)) (\<lambda>(audio, sr).
     io_bind (io_lift (openamp_from_pretrained lib)) (\<lambda>encoder.
     io_bind (io_lift (openamp_extract lib encoder audio sr)) (\<lambda>result.
     io_bind (io_lift (py_get result ''detected_effects'' (PDict []))) (\<lambda>raw.
     io_bind (io_lift (py_items raw)) (\<lambda>items.
     io_bind (io_lift (openamp_loop rt items [])) (\<lambda>effects.
     io_bind (io_lift (py_get result ''encodings'' (PList []))) (\<lambda>encodings.
     io_bind (io_lift (json_dumps rt
         (py_dict [(''effects'', PList effects), (''embeddings'', encodings)]))) (\<lambda>line.
       py_print line))))))))))"

definition openamp_main ::
  "runtime \<Rightarrow> string list \<Rightarrow> (string \<Rightarrow> bool option) \<Rightarrow> ('enc, 'audio, 'sr) openamp_lib \<Rightarrow> proc" where
  "openamp_main rt argv path_exists lib =
     (if length argv < 2 then
        \<lparr>printed = [py_dict [(''error'', PStr ''Usage: openamp_detect.py <audio_file>'')]],
         status = 1\<rparr>
      else
        let audio_path = str_path rt (argv ! 1) in
        (case path_exists audio_path of
           None \<Rightarrow> \<lparr>printed = [], status = 1\<rparr>
         | Some False \<Rightarrow>
             \<lparr>printed = [py_dict [(''error'', PStr (''File not found: '' @ audio_path))]],
              status = 1\<rparr>
         | Some True \<Rightarrow>
              (case openamp_body rt lib audio_path [] of
                 (Inr _, out) \<Rightarrow> \<lparr>printed = out, status = 0\<rparr>
               | (Inl (ImportError m), out) \<Rightarrow>
                   \<lparr>printed = out @ [py_dict [(''error'', PStr (''Import failed: '' @ m)),
                      (''install'', PStr ''pip install openamp librosa'')]],
                    status = 1\<rparr>
               | (Inl e, out) \<Rightarrow>
                   \<lparr>printed = out @ [py_dict [(''error'', PStr (str_exn rt e))]], status = 1\<rparr>)))"

section \<open>Documents\<close>

text \<open>
  The keys of the document at top level, and the two shapes a printed document may have:
  a detection result has \<^verbatim>\<open>effects\<close>, an array, and \<^verbatim>\<open>embeddings\<close> and no \<^verbatim>\<open>error\<close>;
  an error document has \<^verbatim>\<open>error\<close>, a string, at most \<^verbatim>\<open>install\<close> beside it, and so neither
  \<^verbatim>\<open>effects\<close> nor \<^verbatim>\<open>embeddings\<close>.
\<close>

fun doc_field :: "pyval \<Rightarrow> string \<Rightarrow> pyval option" where
  "doc_field (PDict kvs) k = map_of kvs (PStr k)"
| "doc_field v k = None"



fun is_float :: "pyval option \<Rightarrow> bool" where
  "is_float (Some (PFloat f)) = True"
| "is_float v = False"

fun is_number :: "pyval option \<Rightarrow> bool" where
  "is_number (Some (PFloat f)) = True"
| "is_number (Some (PInt n)) = True"
| "is_number v = False"




section \<open>Example runs\<close>

text \<open>
  The inputs of the examples below. In \<open>example_runtime\<close> an integer of magnitude at most
  \<open>2 ^ 53\<close> converts to the float of the same value, as it does in CPython, and a path
  is spelled as it was given, as \<^verbatim>\<open>pathlib\<close> does for a plain file name; strings,
  objects and larger integers are not converted in any example, and every integer is
  written as decimal text, as in CPython before 3.11. In \<open>every_path\<close> each path exists,
  in \<open>no_path\<close> none does, and \<open>long_names_refused\<close> holds nothing and refuses a name longer
  than 255 characters, as Linux does with \<^verbatim>\<open>ENAMETOOLONG\<close>. Each library either loads and
  returns the given value, or fails to import, or raises from its analysis.
\<close>

definition example_runtime :: runtime where
  "example_runtime =
     \<lparr>float_of_int = (\<lambda>n. if \<bar>n\<bar> \<le> 2 ^ 53 then Some (Finite (of_int n)) else None),
      float_of_str = (\<lambda>s. None),
      float_of_obj = (\<lambda>c. None),
      int_digits_ok = (\<lambda>n. True),
      str_path = (\<lambda>s. s),
      builtin_msg = (\<lambda>e. ''exception'')\<rparr>"

definition every_path :: "string \<Rightarrow> bool option" where
  "every_path p = Some True"



definition llm2fx_returning :: "pyval \<Rightarrow> unit llm2fx_lib" where
  "llm2fx_returning v =
     \<lparr>import_llm2fx = Inr (), llm2fx_from_pretrained = Inr (),
      analyze_audio = (\<lambda>p a. Inr v)\<rparr>"

definition llm2fx_missing :: "unit llm2fx_lib" where
  "llm2fx_missing =
     \<lparr>import_llm2fx = Inl (ImportError (''No module named 'llm2fx'' @ [CHR 0x27])),
      llm2fx_from_pretrained = Inr (),
      analyze_audio = (\<lambda>p a. Inr PNone)\<rparr>"


definition fx_encoder_returning :: "pyval \<Rightarrow> unit fx_encoder_lib" where
  "fx_encoder_returning v =
     \<lparr>import_fx_encoder = Inr (), fx_from_pretrained = Inr (),
      analyze = (\<lambda>enc a. Inr v)\<rparr>"

definition fx_encoder_missing :: "unit fx_encoder_lib" where
  "fx_encoder_missing =
     \<lparr>import_fx_encoder = Inl (ImportError (''No module named 'fx_encoder'' @ [CHR 0x27])),
      fx_from_pretrained = Inr (),
      analyze = (\<lambda>enc a. Inr PNone)\<rparr>"

definition openamp_returning :: "pyval \<Rightarrow> (unit, unit, unit) openamp_lib" where
  "openamp_returning v =
     \<lparr>import_librosa = Inr (), import_openamp = Inr (),
      librosa_load = (\<lambda>a. Inr ((), ())), openamp_from_pretrained = Inr (),
      openamp_extract = (\<lambda>enc audio sr. Inr v)\<rparr>"

definition openamp_missing :: "(unit, unit, unit) openamp_lib" where
  "openamp_missing =
     \<lparr>import_librosa = Inr (),
      import_openamp = Inl (ImportError (''No module named 'openamp'' @ [CHR 0x27])),
      librosa_load = (\<lambda>a. Inr ((), ())), openamp_from_pretrained = Inr (),
      openamp_extract = (\<lambda>enc audio sr. Inr PNone)\<rparr>"




section \<open>Statements inside try\<close>

lemma io_bind_lift:
  "io_bind (io_lift r) f out = (case r of Inl e \<Rightarrow> (Inl e, out) | Inr x \<Rightarrow> f x out)"
  by (simp add: io_bind_def io_lift_def split: sum.splits)

lemma bind_exn_Inr:
  "bind_exn r f = Inr y \<longleftrightarrow> (\<exists>x. r = Inr x \<and> f x = Inr y)"
  by (cases r) (simp_all add: bind_exn_def)

section \<open>Properties of llm2fx_detect.py\<close>

lemma llm2fx_effect_Inr:
  "llm2fx_effect e = Inr d \<longleftrightarrow>
     (\<exists>kvs. e = PDict kvs \<and>
        d = py_dict [(''name'', case map_of kvs (PStr ''type'') of Some v \<Rightarrow> v | None \<Rightarrow> PStr ''unknown''),
                   (''confidence'', case map_of kvs (PStr ''confidence'') of Some v \<Rightarrow> v | None \<Rightarrow> PFloat (Finite (1/2))),
                   (''parameters'', case map_of kvs (PStr ''params'') of Some v \<Rightarrow> v | None \<Rightarrow> PDict [])])"
  by (cases e) (auto simp: llm2fx_effect_def bind_exn_def)

lemma llm2fx_loop_Inr:
  "llm2fx_loop es acc = Inr out \<Longrightarrow>
     \<exists>ds. out = acc @ ds \<and> length ds = length es \<and>
          (\<forall>i<length es. llm2fx_effect (es ! i) = Inr (ds ! i))"
proof (induction es arbitrary: acc)
  case Nil
  then show ?case by simp
next
  case (Cons e es)
  from Cons.prems obtain d where d: "llm2fx_effect e = Inr d"
    and rest: "llm2fx_loop es (acc @ [d]) = Inr out"
    by (auto simp: bind_exn_Inr)
  from Cons.IH [OF rest] obtain ds where ds: "out = (acc @ [d]) @ ds" "length ds = length es"
    "\<forall>i<length es. llm2fx_effect (es ! i) = Inr (ds ! i)" by blast
  have "out = acc @ (d # ds)" using ds by simp
  moreover have "length (d # ds) = length (e # es)" using ds by simp
  moreover have "\<forall>i<length (e # es). llm2fx_effect ((e # es) ! i) = Inr ((d # ds) ! i)"
    using ds d by (auto simp: nth_Cons split: nat.splits)
  ultimately show ?case by blast
qed

lemma llm2fx_body_cases:
  "(\<exists>e. llm2fx_body rt lib path out = (Inl e, out)) \<or>
   (\<exists>p result chain entries effects.
      import_llm2fx lib = Inr () \<and> llm2fx_from_pretrained lib = Inr p \<and>
      analyze_audio lib p path = Inr result \<and>
      py_get result ''effect_chain'' (PList []) = Inr chain \<and>
      py_iter chain = Inr entries \<and>
      llm2fx_loop entries [] = Inr effects \<and>
      serializable rt (py_dict [(''effects'', PList effects), (''embeddings'', PList [])]) \<and>
      llm2fx_body rt lib path out =
        (Inr (), out @ [py_dict [(''effects'', PList effects), (''embeddings'', PList [])]]))"
  unfolding llm2fx_body_def io_bind_lift json_dumps_def py_print_def
  by (auto split: sum.splits)


lemma llm2fx_main_success:
  assumes "status (llm2fx_main rt argv ex lib) = 0"
  shows "2 \<le> length argv \<and> ex (str_path rt (argv ! 1)) = Some True \<and>
    (\<exists>p result chain entries effects.
      import_llm2fx lib = Inr () \<and> llm2fx_from_pretrained lib = Inr p \<and>
      analyze_audio lib p (str_path rt (argv ! 1)) = Inr result \<and>
      py_get result ''effect_chain'' (PList []) = Inr chain \<and>
      py_iter chain = Inr entries \<and>
      llm2fx_loop entries [] = Inr effects \<and>
      serializable rt (py_dict [(''effects'', PList effects), (''embeddings'', PList [])]) \<and>
      printed (llm2fx_main rt argv ex lib) =
        [py_dict [(''effects'', PList effects), (''embeddings'', PList [])]])"
  using assms llm2fx_body_cases [of rt lib "str_path rt (argv ! 1)" "[]"]
  unfolding llm2fx_main_def Let_def
  by (auto split: if_splits sum.splits exn.splits option.splits bool.splits)

lemma llm2fx_effect_fields:
  assumes "llm2fx_effect e = Inr d"
  shows "doc_field d ''name'' = Some (case doc_field e ''type'' of Some v \<Rightarrow> v | None \<Rightarrow> PStr ''unknown'')"
    and "doc_field d ''confidence'' = Some (case doc_field e ''confidence'' of Some v \<Rightarrow> v | None \<Rightarrow> PFloat (Finite (1/2)))"
    and "doc_field d ''parameters'' = Some (case doc_field e ''params'' of Some v \<Rightarrow> v | None \<Rightarrow> PDict [])"
  using assms by (auto simp: llm2fx_effect_Inr)

lemma llm2fx_main_effects:
  assumes "status (llm2fx_main rt argv ex lib) = 0"
  shows "\<exists>p result chain entries effects.
      llm2fx_from_pretrained lib = Inr p \<and>
      analyze_audio lib p (str_path rt (argv ! 1)) = Inr result \<and>
      py_get result ''effect_chain'' (PList []) = Inr chain \<and>
      py_iter chain = Inr entries \<and>
      printed (llm2fx_main rt argv ex lib) =
        [py_dict [(''effects'', PList effects), (''embeddings'', PList [])]] \<and>
      length effects = length entries \<and>
      (\<forall>i<length entries. llm2fx_effect (entries ! i) = Inr (effects ! i))"
proof -
  from llm2fx_main_success [OF assms] obtain p result chain entries effects where
    h: "llm2fx_from_pretrained lib = Inr p"
       "analyze_audio lib p (str_path rt (argv ! 1)) = Inr result"
       "py_get result ''effect_chain'' (PList []) = Inr chain"
       "py_iter chain = Inr entries"
       "llm2fx_loop entries [] = Inr effects"
       "printed (llm2fx_main rt argv ex lib) =
          [py_dict [(''effects'', PList effects), (''embeddings'', PList [])]]"
    by blast
  from llm2fx_loop_Inr [OF h(5)] have
    "length effects = length entries"
    "\<forall>i<length entries. llm2fx_effect (entries ! i) = Inr (effects ! i)"
    by auto
  with h show ?thesis by blast
qed

text \<open>
  Claim C1, as amended. In a run of \<^verbatim>\<open>llm2fx_detect.py\<close> that exits with status 0, every
  entry of the raw effect chain gives one effect of the output, and that effect always has
  a \<^verbatim>\<open>parameters\<close> field: the value under \<^verbatim>\<open>params\<close> of the entry when the entry has that
  key, and the empty mapping when it has not.
\<close>

theorem llm2fx_parameters_default:
  assumes "status (llm2fx_main rt argv ex lib) = 0"
  shows "\<exists>p result chain entries effects.
      llm2fx_from_pretrained lib = Inr p \<and>
      analyze_audio lib p (str_path rt (argv ! 1)) = Inr result \<and>
      py_get result ''effect_chain'' (PList []) = Inr chain \<and>
      py_iter chain = Inr entries \<and>
      printed (llm2fx_main rt argv ex lib) =
        [py_dict [(''effects'', PList effects), (''embeddings'', PList [])]] \<and>
      length effects = length entries \<and>
      (\<forall>i<length entries.
         doc_field (effects ! i) ''parameters'' =
           Some (case doc_field (entries ! i) ''params'' of Some v \<Rightarrow> v | None \<Rightarrow> PDict []))"
proof -
  from llm2fx_main_effects [OF assms] obtain p result chain entries effects where
    h: "llm2fx_from_pretrained lib = Inr p"
       "analyze_audio lib p (str_path rt (argv ! 1)) = Inr result"
       "py_get result ''effect_chain'' (PList []) = Inr chain"
       "py_iter chain = Inr entries"
       "printed (llm2fx_main rt argv ex lib) =
          [py_dict [(''effects'', PList effects), (''embeddings'', PList [])]]"
       "length effects = length entries"
       "\<forall>i<length entries. llm2fx_effect (entries ! i) = Inr (effects ! i)"
    by blast
  from h(7) have "\<forall>i<length entries.
         doc_field (effects ! i) ''parameters'' =
           Some (case doc_field (entries ! i) ''params'' of Some v \<Rightarrow> v | None \<Rightarrow> PDict [])"
    using llm2fx_effect_fields(3) by blast
  with h show ?thesis by blast
qed


lemma llm2fx_returning_run:
  "llm2fx_body rt (llm2fx_returning v) a [] =
     (case bind_exn (py_get v ''effect_chain'' (PList [])) (\<lambda>chain.
           bind_exn (py_iter chain) (\<lambda>entries.
           bind_exn (llm2fx_loop entries []) (\<lambda>effects.
             json_dumps rt (py_dict [(''effects'', PList effects), (''embeddings'', PList [])]))))
      of Inl e \<Rightarrow> (Inl e, []) | Inr d \<Rightarrow> (Inr (), [d]))"
  by (simp add: llm2fx_body_def llm2fx_returning_def io_bind_lift bind_exn_def py_print_def
      split: sum.splits)

text \<open>
  Claim C1 as it is written fails: the entry \<^verbatim>\<open>{"type": "reverb"}\<close> has no \<^verbatim>\<open>params\<close>, and
  the effect printed for it carries \<^verbatim>\<open>"parameters": {}\<close>.
\<close>

theorem llm2fx_parameters_omitted_counterexample:
  "doc_field (py_dict [(''type'', PStr ''reverb'')]) ''params'' = None \<and>
   llm2fx_main example_runtime [''llm2fx_detect.py'', ''song.wav''] every_path
     (llm2fx_returning (py_dict [(''effect_chain'', PList [py_dict [(''type'', PStr ''reverb'')]])])) =
   \<lparr>printed = [py_dict [(''effects'', PList [py_dict [(''name'', PStr ''reverb''),
        (''confidence'', PFloat (Finite (1/2))), (''parameters'', PDict [])]]),
        (''embeddings'', PList [])]], status = 0\<rparr>"
  by (simp add: llm2fx_main_def llm2fx_returning_run example_runtime_def every_path_def
      bind_exn_def llm2fx_effect_def json_dumps_def)

theorem llm2fx_parameters_default_witness:
  "status (llm2fx_main example_runtime [''llm2fx_detect.py'', ''song.wav''] every_path
     (llm2fx_returning (py_dict [(''effect_chain'', PList [py_dict [(''type'', PStr ''reverb'')]])]))) = 0 \<and>
   (\<exists>effects.
      printed (llm2fx_main example_runtime [''llm2fx_detect.py'', ''song.wav''] every_path
        (llm2fx_returning (py_dict [(''effect_chain'', PList [py_dict [(''type'', PStr ''reverb'')]])]))) =
        [py_dict [(''effects'', PList effects), (''embeddings'', PList [])]] \<and>
      length effects = 1 \<and> doc_field (effects ! 0) ''parameters'' = Some (PDict []))"
proof -
  let ?lib = "llm2fx_returning (py_dict [(''effect_chain'', PList [py_dict [(''type'', PStr ''reverb'')]])])"
  let ?run = "llm2fx_main example_runtime [''llm2fx_detect.py'', ''song.wav''] every_path ?lib"
  have s: "status ?run = 0"
    by (simp add: llm2fx_main_def llm2fx_returning_run example_runtime_def every_path_def
      bind_exn_def llm2fx_effect_def json_dumps_def)
  from llm2fx_parameters_default [OF s] obtain p result chain entries effects where
    h: "analyze_audio ?lib p (str_path example_runtime ([''llm2fx_detect.py'', ''song.wav''] ! 1)) = Inr result"
       "py_get result ''effect_chain'' (PList []) = Inr chain"
       "py_iter chain = Inr entries"
       "printed ?run = [py_dict [(''effects'', PList effects), (''embeddings'', PList [])]]"
       "length effects = length entries"
       "\<forall>i<length entries. doc_field (effects ! i) ''parameters'' =
           Some (case doc_field (entries ! i) ''params'' of Some v \<Rightarrow> v | None \<Rightarrow> PDict [])"
    by blast
  from h(1) have "result = py_dict [(''effect_chain'', PList [py_dict [(''type'', PStr ''reverb'')]])]"
    by (simp add: llm2fx_returning_def)
  with h(2) have "chain = PList [py_dict [(''type'', PStr ''reverb'')]]" by simp
  with h(3) have e: "entries = [py_dict [(''type'', PStr ''reverb'')]]" by simp
  with h(5) have "length effects = 1" by simp
  moreover from h(6) e have "doc_field (effects ! 0) ''parameters'' = Some (PDict [])" by simp
  ultimately show ?thesis using s h(4) by blast
qed


lemma llm2fx_body_returns:
  assumes "import_llm2fx lib = Inr ()" "llm2fx_from_pretrained lib = Inr p"
    "analyze_audio lib p a = Inr v"
  shows "llm2fx_body rt lib a out =
     (case bind_exn (py_get v ''effect_chain'' (PList [])) (\<lambda>chain.
           bind_exn (py_iter chain) (\<lambda>entries.
           bind_exn (llm2fx_loop entries []) (\<lambda>effects.
             json_dumps rt (py_dict [(''effects'', PList effects), (''embeddings'', PList [])]))))
      of Inl e \<Rightarrow> (Inl e, out) | Inr d \<Rightarrow> (Inr (), out @ [d]))"
  using assms
  by (simp add: llm2fx_body_def io_bind_lift bind_exn_def py_print_def split: sum.splits)

lemma llm2fx_main_effects_conf:
  assumes "status (llm2fx_main rt argv ex lib) = 0"
  shows "\<exists>p result chain entries effects.
      llm2fx_from_pretrained lib = Inr p \<and>
      analyze_audio lib p (str_path rt (argv ! 1)) = Inr result \<and>
      py_get result ''effect_chain'' (PList []) = Inr chain \<and>
      py_iter chain = Inr entries \<and>
      printed (llm2fx_main rt argv ex lib) =
        [py_dict [(''effects'', PList effects), (''embeddings'', PList [])]] \<and>
      length effects = length entries \<and>
      (\<forall>i<length entries. doc_field (entries ! i) ''confidence'' = None \<longrightarrow>
         doc_field (effects ! i) ''confidence'' = Some (PFloat (Finite (1/2))))"
proof -
  from llm2fx_main_effects [OF assms] obtain p result chain entries effects where
    h: "llm2fx_from_pretrained lib = Inr p"
       "analyze_audio lib p (str_path rt (argv ! 1)) = Inr result"
       "py_get result ''effect_chain'' (PList []) = Inr chain"
       "py_iter chain = Inr entries"
       "printed (llm2fx_main rt argv ex lib) =
          [py_dict [(''effects'', PList effects), (''embeddings'', PList [])]]"
       "length effects = length entries"
       "\<forall>i<length entries. llm2fx_effect (entries ! i) = Inr (effects ! i)"
    by blast
  have "\<forall>i<length entries. doc_field (entries ! i) ''confidence'' = None \<longrightarrow>
         doc_field (effects ! i) ''confidence'' = Some (PFloat (Finite (1/2)))"
  proof (intro allI impI)
    fix i assume i: "i < length entries" and n: "doc_field (entries ! i) ''confidence'' = None"
    from h(7) i have "llm2fx_effect (entries ! i) = Inr (effects ! i)" by blast
    from llm2fx_effect_fields(2) [OF this] n
    show "doc_field (effects ! i) ''confidence'' = Some (PFloat (Finite (1/2)))" by simp
  qed
  with h show ?thesis by blast
qed

lemma llm2fx_reverb_scenario:
  assumes "2 \<le> length argv" "ex (str_path rt (argv ! 1)) = Some True"
    "import_llm2fx lib = Inr ()" "llm2fx_from_pretrained lib = Inr p"
    "analyze_audio lib p (str_path rt (argv ! 1)) = Inr (PDict kvs)"
    "map_of kvs (PStr ''effect_chain'') = Some (PList [py_dict [(''type'', PStr ''reverb''),
        (''params'', py_dict [(''decay'', PFloat (Finite (3/10)))])]])"
  shows "llm2fx_main rt argv ex lib =
     \<lparr>printed = [py_dict [(''effects'', PList [py_dict [(''name'', PStr ''reverb''),
          (''confidence'', PFloat (Finite (1/2))),
          (''parameters'', py_dict [(''decay'', PFloat (Finite (3/10)))])]]),
          (''embeddings'', PList [])]], status = 0\<rparr>"
proof -
  have "llm2fx_body rt lib (str_path rt (argv ! 1)) [] =
     (Inr (), [py_dict [(''effects'', PList [py_dict [(''name'', PStr ''reverb''),
          (''confidence'', PFloat (Finite (1/2))),
          (''parameters'', py_dict [(''decay'', PFloat (Finite (3/10)))])]]),
          (''embeddings'', PList [])]])"
    using assms(6)
    by (subst llm2fx_body_returns [OF assms(3,4,5)])
      (simp add: bind_exn_def llm2fx_effect_def json_dumps_def)
  with assms(1,2) show ?thesis
    by (simp add: llm2fx_main_def)
qed

text \<open>
  Claim C7. In a run of \<^verbatim>\<open>llm2fx_detect.py\<close> that exits with status 0, the effect printed
  for an entry of the raw effect chain that has no \<^verbatim>\<open>confidence\<close> key has the confidence
  0.5; and when the library returns a result whose effect chain is the single entry
  \<^verbatim>\<open>{"type": "reverb", "params": {"decay": 0.3}}\<close>, the run prints the one document
  \<^verbatim>\<open>{"effects": [{"name": "reverb", "confidence": 0.5, "parameters": {"decay": 0.3}}],
  "embeddings": []}\<close> and exits with status 0.
\<close>

theorem llm2fx_confidence_default:
  "(status (llm2fx_main rt argv ex lib) = 0 \<longrightarrow>
     (\<exists>p result chain entries effects.
        llm2fx_from_pretrained lib = Inr p \<and>
        analyze_audio lib p (str_path rt (argv ! 1)) = Inr result \<and>
        py_get result ''effect_chain'' (PList []) = Inr chain \<and>
        py_iter chain = Inr entries \<and>
        printed (llm2fx_main rt argv ex lib) =
          [py_dict [(''effects'', PList effects), (''embeddings'', PList [])]] \<and>
        length effects = length entries \<and>
        (\<forall>i<length entries. doc_field (entries ! i) ''confidence'' = None \<longrightarrow>
           doc_field (effects ! i) ''confidence'' = Some (PFloat (Finite (1/2)))))) \<and>
   (2 \<le> length argv' \<and> ex' (str_path rt' (argv' ! 1)) = Some True \<and>
    import_llm2fx lib' = Inr () \<and> llm2fx_from_pretrained lib' = Inr p' \<and>
    analyze_audio lib' p' (str_path rt' (argv' ! 1)) = Inr (PDict kvs) \<and>
    map_of kvs (PStr ''effect_chain'') = Some (PList [py_dict [(''type'', PStr ''reverb''),
        (''params'', py_dict [(''decay'', PFloat (Finite (3/10)))])]]) \<longrightarrow>
    llm2fx_main rt' argv' ex' lib' =
     \<lparr>printed = [py_dict [(''effects'', PList [py_dict [(''name'', PStr ''reverb''),
          (''confidence'', PFloat (Finite (1/2))),
          (''parameters'', py_dict [(''decay'', PFloat (Finite (3/10)))])]]),
          (''embeddings'', PList [])]], status = 0\<rparr>)"
  using llm2fx_main_effects_conf [of rt argv ex lib]
    llm2fx_reverb_scenario [of argv' ex' rt' lib' p' kvs]
  by blast

text \<open>
  The scenario of claim C7 run on the example inputs.
\<close>

theorem llm2fx_confidence_default_witness:
  "status (llm2fx_main example_runtime [''llm2fx_detect.py'', ''song.wav''] every_path
     (llm2fx_returning (py_dict [(''effect_chain'', PList [py_dict [(''type'', PStr ''reverb''),
        (''params'', py_dict [(''decay'', PFloat (Finite (3/10)))])]])]))) = 0 \<and>
   doc_field (py_dict [(''type'', PStr ''reverb''),
        (''params'', py_dict [(''decay'', PFloat (Finite (3/10)))])]) ''confidence'' = None \<and>
   (2::nat) \<le> length [''llm2fx_detect.py'', ''song.wav''] \<and>
   every_path (str_path example_runtime ([''llm2fx_detect.py'', ''song.wav''] ! 1)) = Some True \<and>
   llm2fx_main example_runtime [''llm2fx_detect.py'', ''song.wav''] every_path
     (llm2fx_returning (py_dict [(''effect_chain'', PList [py_dict [(''type'', PStr ''reverb''),
        (''params'', py_dict [(''decay'', PFloat (Finite (3/10)))])]])])) =
     \<lparr>printed = [py_dict [(''effects'', PList [py_dict [(''name'', PStr ''reverb''),
          (''confidence'', PFloat (Finite (1/2))),
          (''parameters'', py_dict [(''decay'', PFloat (Finite (3/10)))])]]),
          (''embeddings'', PList [])]], status = 0\<rparr>"
  using llm2fx_confidence_default [of example_runtime "[''llm2fx_detect.py'', ''song.wav'']"
      every_path
      "llm2fx_returning (py_dict [(''effect_chain'', PList [py_dict [(''type'', PStr ''reverb''),
        (''params'', py_dict [(''decay'', PFloat (Finite (3/10)))])]])])"
      "[''llm2fx_detect.py'', ''song.wav'']" every_path example_runtime
      "llm2fx_returning (py_dict [(''effect_chain'', PList [py_dict [(''type'', PStr ''reverb''),
        (''params'', py_dict [(''decay'', PFloat (Finite (3/10)))])]])])"
      "()" "[(PStr ''effect_chain'', PList [py_dict [(''type'', PStr ''reverb''),
        (''params'', py_dict [(''decay'', PFloat (Finite (3/10)))])]])]"]
  by (simp add: every_path_def example_runtime_def llm2fx_returning_def)


lemma llm2fx_effect_untyped:
  assumes "map_of kvs (PStr ''type'') = None"
  shows "\<exists>conf params. llm2fx_effect (PDict kvs) =
     Inr (py_dict [(''name'', PStr ''unknown''), (''confidence'', conf), (''parameters'', params)])"
  using assms by (simp add: llm2fx_effect_def bind_exn_def)

lemma llm2fx_main_effects_name:
  assumes "status (llm2fx_main rt argv ex lib) = 0"
  shows "\<exists>p result chain entries effects.
      llm2fx_from_pretrained lib = Inr p \<and>
      analyze_audio lib p (str_path rt (argv ! 1)) = Inr result \<and>
      py_get result ''effect_chain'' (PList []) = Inr chain \<and>
      py_iter chain = Inr entries \<and>
      printed (llm2fx_main rt argv ex lib) =
        [py_dict [(''effects'', PList effects), (''embeddings'', PList [])]] \<and>
      length effects = length entries \<and>
      (\<forall>i<length entries. doc_field (entries ! i) ''type'' = None \<longrightarrow>
         doc_field (effects ! i) ''name'' = Some (PStr ''unknown''))"
proof -
  from llm2fx_main_effects [OF assms] obtain p result chain entries effects where
    h: "llm2fx_from_pretrained lib = Inr p"
       "analyze_audio lib p (str_path rt (argv ! 1)) = Inr result"
       "py_get result ''effect_chain'' (PList []) = Inr chain"
       "py_iter chain = Inr entries"
       "printed (llm2fx_main rt argv ex lib) =
          [py_dict [(''effects'', PList effects), (''embeddings'', PList [])]]"
       "length effects = length entries"
       "\<forall>i<length entries. llm2fx_effect (entries ! i) = Inr (effects ! i)"
    by blast
  have "\<forall>i<length entries. doc_field (entries ! i) ''type'' = None \<longrightarrow>
         doc_field (effects ! i) ''name'' = Some (PStr ''unknown'')"
  proof (intro allI impI)
    fix i assume i: "i < length entries" and n: "doc_field (entries ! i) ''type'' = None"
    from h(7) i have "llm2fx_effect (entries ! i) = Inr (effects ! i)" by blast
    from llm2fx_effect_fields(1) [OF this] n
    show "doc_field (effects ! i) ''name'' = Some (PStr ''unknown'')" by simp
  qed
  with h show ?thesis by blast
qed

text \<open>
  Claim C10. An entry of the raw effect chain that is a mapping without a \<^verbatim>\<open>type\<close> key
  raises nothing and gives an effect whose \<^verbatim>\<open>name\<close> is the string \<^verbatim>\<open>unknown\<close>; in a run of
  \<^verbatim>\<open>llm2fx_detect.py\<close> that exits with status 0 no entry is skipped, and the effect printed
  for an entry without \<^verbatim>\<open>type\<close> is named \<^verbatim>\<open>unknown\<close>.
\<close>

theorem llm2fx_name_default:
  "(map_of kvs (PStr ''type'') = None \<longrightarrow>
     (\<exists>conf params. llm2fx_effect (PDict kvs) =
        Inr (py_dict [(''name'', PStr ''unknown''), (''confidence'', conf),
                    (''parameters'', params)]))) \<and>
   (status (llm2fx_main rt argv ex lib) = 0 \<longrightarrow>
     (\<exists>p result chain entries effects.
        llm2fx_from_pretrained lib = Inr p \<and>
        analyze_audio lib p (str_path rt (argv ! 1)) = Inr result \<and>
        py_get result ''effect_chain'' (PList []) = Inr chain \<and>
        py_iter chain = Inr entries \<and>
        printed (llm2fx_main rt argv ex lib) =
          [py_dict [(''effects'', PList effects), (''embeddings'', PList [])]] \<and>
        length effects = length entries \<and>
        (\<forall>i<length entries. doc_field (entries ! i) ''type'' = None \<longrightarrow>
           doc_field (effects ! i) ''name'' = Some (PStr ''unknown''))))"
  using llm2fx_effect_untyped [of kvs] llm2fx_main_effects_name [of rt argv ex lib]
  by blast

text \<open>
  Claim C10 on an entry that has a confidence and no type.
\<close>

theorem llm2fx_name_default_witness:
  "map_of [(PStr ''confidence'', PFloat (Finite (9/10)))] (PStr ''type'') = None \<and>
   llm2fx_effect (py_dict [(''confidence'', PFloat (Finite (9/10)))]) =
     Inr (py_dict [(''name'', PStr ''unknown''), (''confidence'', PFloat (Finite (9/10))),
                 (''parameters'', PDict [])]) \<and>
   llm2fx_main example_runtime [''llm2fx_detect.py'', ''song.wav''] every_path
     (llm2fx_returning (py_dict [(''effect_chain'',
        PList [py_dict [(''confidence'', PFloat (Finite (9/10)))]])])) =
     \<lparr>printed = [py_dict [(''effects'', PList [py_dict [(''name'', PStr ''unknown''),
          (''confidence'', PFloat (Finite (9/10))), (''parameters'', PDict [])]]),
          (''embeddings'', PList [])]], status = 0\<rparr>"
  using llm2fx_name_default [of "[(PStr ''confidence'', PFloat (Finite (9/10)))]"
      example_runtime "[''llm2fx_detect.py'', ''song.wav'']" every_path
      "llm2fx_returning (py_dict [(''effect_chain'',
        PList [py_dict [(''confidence'', PFloat (Finite (9/10)))]])])"]
  by (simp add: llm2fx_main_def llm2fx_returning_run example_runtime_def every_path_def
      bind_exn_def llm2fx_effect_def json_dumps_def)

section \<open>Properties of fx_encoder_detect.py\<close>

lemma fx_encoder_loop_Inr:
  "fx_encoder_loop rt items acc = Inr out \<Longrightarrow>
     \<exists>ds. out = acc @ ds \<and> length ds = length items \<and>
          (\<forall>i<length items. \<exists>f. py_float rt (snd (items ! i)) = Inr f \<and>
             ds ! i = py_dict [(''name'', fst (items ! i)), (''confidence'', PFloat f)])"
proof (induction items arbitrary: acc)
  case Nil
  then show ?case by simp
next
  case (Cons kv items)
  obtain name conf where kv: "kv = (name, conf)" by (cases kv)
  from Cons.prems kv obtain f where f: "py_float rt conf = Inr f"
    and rest: "fx_encoder_loop rt items
       (acc @ [py_dict [(''name'', name), (''confidence'', PFloat f)]]) = Inr out"
    by (auto simp: bind_exn_Inr)
  let ?d = "py_dict [(''name'', name), (''confidence'', PFloat f)]"
  from Cons.IH [OF rest] obtain ds where ds: "out = (acc @ [?d]) @ ds" "length ds = length items"
    "\<forall>i<length items. \<exists>f. py_float rt (snd (items ! i)) = Inr f \<and>
             ds ! i = py_dict [(''name'', fst (items ! i)), (''confidence'', PFloat f)]"
    by blast
  have "out = acc @ (?d # ds)" using ds by simp
  moreover have "length (?d # ds) = length (kv # items)" using ds by simp
  moreover have "\<forall>i<length (kv # items). \<exists>f. py_float rt (snd ((kv # items) ! i)) = Inr f \<and>
       (?d # ds) ! i = py_dict [(''name'', fst ((kv # items) ! i)), (''confidence'', PFloat f)]"
    using ds(3) f kv by (auto simp: nth_Cons split: nat.splits)
  ultimately show ?case by blast
qed

lemma fx_encoder_body_cases:
  "(\<exists>e. fx_encoder_body rt lib path out = (Inl e, out)) \<or>
   (\<exists>enc result raw items effects embeddings.
      import_fx_encoder lib = Inr () \<and> fx_from_pretrained lib = Inr enc \<and>
      analyze lib enc path = Inr result \<and>
      py_get result ''effects'' (PDict []) = Inr raw \<and>
      py_items raw = Inr items \<and>
      fx_encoder_loop rt items [] = Inr effects \<and>
      py_get result ''embeddings'' (PList []) = Inr embeddings \<and>
      serializable rt (py_dict [(''effects'', PList effects), (''embeddings'', embeddings)]) \<and>
      fx_encoder_body rt lib path out =
        (Inr (), out @ [py_dict [(''effects'', PList effects), (''embeddings'', embeddings)]]))"
  unfolding fx_encoder_body_def io_bind_lift json_dumps_def py_print_def
  by (auto split: sum.splits)

lemma fx_encoder_main_success:
  assumes "status (fx_encoder_main rt argv ex lib) = 0"
  shows "2 \<le> length argv \<and> ex (str_path rt (argv ! 1)) = Some True \<and>
    (\<exists>enc result raw items effects embeddings.
      import_fx_encoder lib = Inr () \<and> fx_from_pretrained lib = Inr enc \<and>
      analyze lib enc (str_path rt (argv ! 1)) = Inr result \<and>
      py_get result ''effects'' (PDict []) = Inr raw \<and>
      py_items raw = Inr items \<and>
      fx_encoder_loop rt items [] = Inr effects \<and>
      py_get result ''embeddings'' (PList []) = Inr embeddings \<and>
      serializable rt (py_dict [(''effects'', PList effects), (''embeddings'', embeddings)]) \<and>
      printed (fx_encoder_main rt argv ex lib) =
        [py_dict [(''effects'', PList effects), (''embeddings'', embeddings)]])"
  using assms fx_encoder_body_cases [of rt lib "str_path rt (argv ! 1)" "[]"]
  unfolding fx_encoder_main_def Let_def
  by (auto split: if_splits sum.splits exn.splits option.splits bool.splits)

lemma fx_encoder_body_returns:
  assumes "import_fx_encoder lib = Inr ()" "fx_from_pretrained lib = Inr enc"
    "analyze lib enc a = Inr v"
  shows "fx_encoder_body rt lib a out =
     (case bind_exn (py_get v ''effects'' (PDict [])) (\<lambda>raw.
           bind_exn (py_items raw) (\<lambda>items.
           bind_exn (fx_encoder_loop rt items []) (\<lambda>effects.
           bind_exn (py_get v ''embeddings'' (PList [])) (\<lambda>embeddings.
             json_dumps rt (py_dict [(''effects'', PList effects), (''embeddings'', embeddings)])))))
      of Inl e \<Rightarrow> (Inl e, out) | Inr d \<Rightarrow> (Inr (), out @ [d]))"
  using assms
  by (simp add: fx_encoder_body_def io_bind_lift bind_exn_def py_print_def split: sum.splits)

lemma fx_encoder_returning_run:
  "fx_encoder_body rt (fx_encoder_returning v) a [] =
     (case bind_exn (py_get v ''effects'' (PDict [])) (\<lambda>raw.
           bind_exn (py_items raw) (\<lambda>items.
           bind_exn (fx_encoder_loop rt items []) (\<lambda>effects.
           bind_exn (py_get v ''embeddings'' (PList [])) (\<lambda>embeddings.
             json_dumps rt (py_dict [(''effects'', PList effects), (''embeddings'', embeddings)])))))
      of Inl e \<Rightarrow> (Inl e, []) | Inr d \<Rightarrow> (Inr (), [d]))"
  by (simp add: fx_encoder_body_def fx_encoder_returning_def io_bind_lift bind_exn_def
      py_print_def split: sum.splits)


section \<open>Properties of openamp_detect.py\<close>

lemma openamp_loop_Inr:
  "openamp_loop rt items acc = Inr out \<Longrightarrow>
     \<exists>ds. out = acc @ ds \<and> length ds = length items \<and>
          (\<forall>i<length items. \<exists>f. py_float rt (snd (items ! i)) = Inr f \<and>
             ds ! i = py_dict [(''name'', fst (items ! i)), (''confidence'', PFloat f)])"
proof (induction items arbitrary: acc)
  case Nil
  then show ?case by simp
next
  case (Cons kv items)
  obtain name conf where kv: "kv = (name, conf)" by (cases kv)
  from Cons.prems kv obtain f where f: "py_float rt conf = Inr f"
    and rest: "openamp_loop rt items
       (acc @ [py_dict [(''name'', name), (''confidence'', PFloat f)]]) = Inr out"
    by (auto simp: bind_exn_Inr)
  let ?d = "py_dict [(''name'', name), (''confidence'', PFloat f)]"
  from Cons.IH [OF rest] obtain ds where ds: "out = (acc @ [?d]) @ ds" "length ds = length items"
    "\<forall>i<length items. \<exists>f. py_float rt (snd (items ! i)) = Inr f \<and>
             ds ! i = py_dict [(''name'', fst (items ! i)), (''confidence'', PFloat f)]"
    by blast
  have "out = acc @ (?d # ds)" using ds by simp
  moreover have "length (?d # ds) = length (kv # items)" using ds by simp
  moreover have "\<forall>i<length (kv # items). \<exists>f. py_float rt (snd ((kv # items) ! i)) = Inr f \<and>
       (?d # ds) ! i = py_dict [(''name'', fst ((kv # items) ! i)), (''confidence'', PFloat f)]"
    using ds(3) f kv by (auto simp: nth_Cons split: nat.splits)
  ultimately show ?case by blast
qed

lemma openamp_body_cases:
  "(\<exists>e. openamp_body rt lib path out = (Inl e, out)) \<or>
   (\<exists>audio sr enc result raw items effects encodings.
      import_librosa lib = Inr () \<and> import_openamp lib = Inr () \<and>
      librosa_load lib path = Inr (audio, sr) \<and>
      openamp_from_pretrained lib = Inr enc \<and>
      openamp_extract lib enc audio sr = Inr result \<and>
      py_get result ''detected_effects'' (PDict []) = Inr raw \<and>
      py_items raw = Inr items \<and>
      openamp_loop rt items [] = Inr effects \<and>
      py_get result ''encodings'' (PList []) = Inr encodings \<and>
      serializable rt (py_dict [(''effects'', PList effects), (''embeddings'', encodings)]) \<and>
      openamp_body rt lib path out =
        (Inr (), out @ [py_dict [(''effects'', PList effects), (''embeddings'', encodings)]]))"
  unfolding openamp_body_def io_bind_lift json_dumps_def py_print_def
  by (auto split: sum.splits prod.splits)

lemma openamp_main_success:
  assumes "status (openamp_main rt argv ex lib) = 0"
  shows "2 \<le> length argv \<and> ex (str_path rt (argv ! 1)) = Some True \<and>
    (\<exists>audio sr enc result raw items effects encodings.
      import_librosa lib = Inr () \<and> import_openamp lib = Inr () \<and>
      librosa_load lib (str_path rt (argv ! 1)) = Inr (audio, sr) \<and>
      openamp_from_pretrained lib = Inr enc \<and>
      openamp_extract lib enc audio sr = Inr result \<and>
      py_get result ''detected_effects'' (PDict []) = Inr raw \<and>
      py_items raw = Inr items \<and>
      openamp_loop rt items [] = Inr effects \<and>
      py_get result ''encodings'' (PList []) = Inr encodings \<and>
      serializable rt (py_dict [(''effects'', PList effects), (''embeddings'', encodings)]) \<and>
      printed (openamp_main rt argv ex lib) =
        [py_dict [(''effects'', PList effects), (''embeddings'', encodings)]])"
  using assms openamp_body_cases [of rt lib "str_path rt (argv ! 1)" "[]"]
  unfolding openamp_main_def Let_def
  by (auto split: if_splits sum.splits exn.splits option.splits bool.splits)

lemma openamp_body_returns:
  assumes "import_librosa lib = Inr ()" "import_openamp lib = Inr ()"
    "librosa_load lib a = Inr (audio, sr)" "openamp_from_pretrained lib = Inr enc"
    "openamp_extract lib enc audio sr = Inr v"
  shows "openamp_body rt lib a out =
     (case bind_exn (py_get v ''detected_effects'' (PDict [])) (\<lambda>raw.
           bind_exn (py_items raw) (\<lambda>items.
           bind_exn (openamp_loop rt items []) (\<lambda>effects.
           bind_exn (py_get v ''encodings'' (PList [])) (\<lambda>encodings.
             json_dumps rt (py_dict [(''effects'', PList effects), (''embeddings'', encodings)])))))
      of Inl e \<Rightarrow> (Inl e, out) | Inr d \<Rightarrow> (Inr (), out @ [d]))"
  using assms
  by (simp add: openamp_body_def io_bind_lift bind_exn_def py_print_def split: sum.splits)

lemma openamp_returning_run:
  "openamp_body rt (openamp_returning v) a [] =
     (case bind_exn (py_get v ''detected_effects'' (PDict [])) (\<lambda>raw.
           bind_exn (py_items raw) (\<lambda>items.
           bind_exn (openamp_loop rt items []) (\<lambda>effects.
           bind_exn (py_get v ''encodings'' (PList [])) (\<lambda>encodings.
             json_dumps rt (py_dict [(''effects'', PList effects), (''embeddings'', encodings)])))))
      of Inl e \<Rightarrow> (Inl e, []) | Inr d \<Rightarrow> (Inr (), [d]))"
  by (simp add: openamp_body_def openamp_returning_def io_bind_lift bind_exn_def
      py_print_def split: sum.splits)


section \<open>Failures before and while loading\<close>

text \<open>
  Claim C9. Run with no path argument, each of the three scripts prints the one document
  \<^verbatim>\<open>{"error": "Usage: <script> <audio_file>"}\<close>, which has no \<^verbatim>\<open>install\<close> field, and exits with
  status 1, whatever the file system holds and whatever the library would do.
\<close>

theorem usage_error:
  "(length argv < 2 \<longrightarrow>
      fx_encoder_main rt argv ex libA =
        \<lparr>printed = [py_dict [(''error'', PStr ''Usage: fx_encoder_detect.py <audio_file>'')]],
         status = 1\<rparr>) \<and>
   (length argv < 2 \<longrightarrow>
      llm2fx_main rt argv ex libB =
        \<lparr>printed = [py_dict [(''error'', PStr ''Usage: llm2fx_detect.py <audio_file>'')]],
         status = 1\<rparr>) \<and>
   (length argv < 2 \<longrightarrow>
      openamp_main rt argv ex libC =
        \<lparr>printed = [py_dict [(''error'', PStr ''Usage: openamp_detect.py <audio_file>'')]],
         status = 1\<rparr>)"
  by (simp add: fx_encoder_main_def llm2fx_main_def openamp_main_def)

text \<open>
  Claim C9 on an argument vector that holds the script name only.
\<close>

theorem usage_error_witness:
  "length [''fx_encoder_detect.py''] < 2 \<and>
   fx_encoder_main example_runtime [''fx_encoder_detect.py''] every_path (fx_encoder_returning PNone) =
     \<lparr>printed = [py_dict [(''error'', PStr ''Usage: fx_encoder_detect.py <audio_file>'')]],
      status = 1\<rparr> \<and>
   llm2fx_main example_runtime [''fx_encoder_detect.py''] every_path (llm2fx_returning PNone) =
     \<lparr>printed = [py_dict [(''error'', PStr ''Usage: llm2fx_detect.py <audio_file>'')]],
      status = 1\<rparr> \<and>
   openamp_main example_runtime [''fx_encoder_detect.py''] every_path (openamp_returning PNone) =
     \<lparr>printed = [py_dict [(''error'', PStr ''Usage: openamp_detect.py <audio_file>'')]],
      status = 1\<rparr>"
  using usage_error [of "[''fx_encoder_detect.py'']" example_runtime every_path
      "fx_encoder_returning PNone" "llm2fx_returning PNone" "openamp_returning PNone"]
  by simp




lemma fx_encoder_import_fails:
  assumes "import_fx_encoder lib = Inl e \<or>
     (import_fx_encoder lib = Inr () \<and> fx_from_pretrained lib = Inl e)"
  shows "fx_encoder_body rt lib a out = (Inl e, out)"
  using assms by (auto simp: fx_encoder_body_def io_bind_lift)

lemma llm2fx_import_fails:
  assumes "import_llm2fx lib = Inl e \<or>
     (import_llm2fx lib = Inr () \<and> llm2fx_from_pretrained lib = Inl e)"
  shows "llm2fx_body rt lib a out = (Inl e, out)"
  using assms by (auto simp: llm2fx_body_def io_bind_lift)

lemma openamp_import_fails:
  assumes "import_librosa lib = Inl e \<or>
     (import_librosa lib = Inr () \<and> import_openamp lib = Inl e) \<or>
     (import_librosa lib = Inr () \<and> import_openamp lib = Inr () \<and>
      librosa_load lib a = Inr loaded \<and> openamp_from_pretrained lib = Inl e)"
  shows "openamp_body rt lib a out = (Inl e, out)"
  using assms by (auto simp: openamp_body_def io_bind_lift split: prod.splits)

text \<open>
  Claim C6. When the import of the library, or the loading of its pretrained model, raises
  an \<^verbatim>\<open>ImportError\<close>, each of the three scripts prints one document with an \<^verbatim>\<open>error\<close> and an
  \<^verbatim>\<open>install\<close> field and exits with status 1; the \<^verbatim>\<open>error\<close> of \<^verbatim>\<open>fx_encoder_detect.py\<close> is
  \<^verbatim>\<open>fx_encoder not installed\<close>.
\<close>

theorem import_error_install:
  "(2 \<le> length argv \<and> ex (str_path rt (argv ! 1)) = Some True \<and>
    (import_fx_encoder libA = Inl (ImportError mA) \<or>
     (import_fx_encoder libA = Inr () \<and> fx_from_pretrained libA = Inl (ImportError mA))) \<longrightarrow>
      fx_encoder_main rt argv ex libA =
        \<lparr>printed = [py_dict [(''error'', PStr ''fx_encoder not installed''),
           (''install'',
            PStr ''git clone https://github.com/SonyResearch/Fx-Encoder_PlusPlus && pip install -r requirements.txt'')]],
         status = 1\<rparr>) \<and>
   (2 \<le> length argv \<and> ex (str_path rt (argv ! 1)) = Some True \<and>
    (import_llm2fx libB = Inl (ImportError mB) \<or>
     (import_llm2fx libB = Inr () \<and> llm2fx_from_pretrained libB = Inl (ImportError mB))) \<longrightarrow>
      llm2fx_main rt argv ex libB =
        \<lparr>printed = [py_dict [(''error'', PStr (''Import failed: '' @ mB)),
           (''install'',
            PStr ''pip install llm2fx-tools  # See: https://arxiv.org/abs/2512.01559'')]],
         status = 1\<rparr>) \<and>
   (2 \<le> length argv \<and> ex (str_path rt (argv ! 1)) = Some True \<and>
    (import_librosa libC = Inl (ImportError mC) \<or>
     (import_librosa libC = Inr () \<and> import_openamp libC = Inl (ImportError mC)) \<or>
     (import_librosa libC = Inr () \<and> import_openamp libC = Inr () \<and>
      librosa_load libC (str_path rt (argv ! 1)) = Inr loaded \<and>
      openamp_from_pretrained libC = Inl (ImportError mC))) \<longrightarrow>
      openamp_main rt argv ex libC =
        \<lparr>printed = [py_dict [(''error'', PStr (''Import failed: '' @ mC)),
           (''install'', PStr ''pip install openamp librosa'')]],
         status = 1\<rparr>)"
proof (intro conjI impI)
  assume h: "2 \<le> length argv \<and> ex (str_path rt (argv ! 1)) = Some True \<and>
    (import_fx_encoder libA = Inl (ImportError mA) \<or>
     (import_fx_encoder libA = Inr () \<and> fx_from_pretrained libA = Inl (ImportError mA)))"
  then have "fx_encoder_body rt libA (str_path rt (argv ! 1)) [] = (Inl (ImportError mA), [])"
    using fx_encoder_import_fails by blast
  with h show "fx_encoder_main rt argv ex libA =
        \<lparr>printed = [py_dict [(''error'', PStr ''fx_encoder not installed''),
           (''install'',
            PStr ''git clone https://github.com/SonyResearch/Fx-Encoder_PlusPlus && pip install -r requirements.txt'')]],
         status = 1\<rparr>"
    by (simp add: fx_encoder_main_def)
next
  assume h: "2 \<le> length argv \<and> ex (str_path rt (argv ! 1)) = Some True \<and>
    (import_llm2fx libB = Inl (ImportError mB) \<or>
     (import_llm2fx libB = Inr () \<and> llm2fx_from_pretrained libB = Inl (ImportError mB)))"
  then have "llm2fx_body rt libB (str_path rt (argv ! 1)) [] = (Inl (ImportError mB), [])"
    using llm2fx_import_fails by blast
  with h show "llm2fx_main rt argv ex libB =
        \<lparr>printed = [py_dict [(''error'', PStr (''Import failed: '' @ mB)),
           (''install'',
            PStr ''pip install llm2fx-tools  # See: https://arxiv.org/abs/2512.01559'')]],
         status = 1\<rparr>"
    by (simp add: llm2fx_main_def)
next
  assume h: "2 \<le> length argv \<and> ex (str_path rt (argv ! 1)) = Some True \<and>
    (import_librosa libC = Inl (ImportError mC) \<or>
     (import_librosa libC = Inr () \<and> import_openamp libC = Inl (ImportError mC)) \<or>
     (import_librosa libC = Inr () \<and> import_openamp libC = Inr () \<and>
      librosa_load libC (str_path rt (argv ! 1)) = Inr loaded \<and>
      openamp_from_pretrained libC = Inl (ImportError mC)))"
  then have "openamp_body rt libC (str_path rt (argv ! 1)) [] = (Inl (ImportError mC), [])"
    using openamp_import_fails by blast
  with h show "openamp_main rt argv ex libC =
        \<lparr>printed = [py_dict [(''error'', PStr (''Import failed: '' @ mC)),
           (''install'', PStr ''pip install openamp librosa'')]],
         status = 1\<rparr>"
    by (simp add: openamp_main_def)
qed

text \<open>
  Claim C6 on three libraries that are not installed.
\<close>

theorem import_error_install_witness:
  "fx_encoder_main example_runtime [''detect.py'', ''song.wav''] every_path fx_encoder_missing =
     \<lparr>printed = [py_dict [(''error'', PStr ''fx_encoder not installed''),
        (''install'',
         PStr ''git clone https://github.com/SonyResearch/Fx-Encoder_PlusPlus && pip install -r requirements.txt'')]],
      status = 1\<rparr> \<and>
   llm2fx_main example_runtime [''detect.py'', ''song.wav''] every_path llm2fx_missing =
     \<lparr>printed = [py_dict [(''error'', PStr (''Import failed: No module named 'llm2fx'' @ [CHR 0x27])),
        (''install'',
         PStr ''pip install llm2fx-tools  # See: https://arxiv.org/abs/2512.01559'')]],
      status = 1\<rparr> \<and>
   openamp_main example_runtime [''detect.py'', ''song.wav''] every_path openamp_missing =
     \<lparr>printed = [py_dict [(''error'', PStr (''Import failed: No module named 'openamp'' @ [CHR 0x27])),
        (''install'', PStr ''pip install openamp librosa'')]],
      status = 1\<rparr>"
  using import_error_install [of "[''detect.py'', ''song.wav'']" every_path example_runtime
      fx_encoder_missing "''No module named 'fx_encoder'' @ [CHR 0x27]"
      llm2fx_missing "''No module named 'llm2fx'' @ [CHR 0x27]"
      openamp_missing "''No module named 'openamp'' @ [CHR 0x27]" "((), ())"]
  by (simp add: every_path_def fx_encoder_missing_def llm2fx_missing_def openamp_missing_def)


section \<open>One document for each run\<close>



















section \<open>Embeddings\<close>

lemma fx_encoder_loop_serializable:
  assumes "fx_encoder_loop rt items [] = Inr effects"
    and names: "list_all (\<lambda>kv. serializable rt (fst kv)) items"
  shows "list_all (serializable rt) effects"
proof -
  from fx_encoder_loop_Inr [OF assms(1)] have
    l: "length effects = length items" and
    e: "\<forall>i<length items. \<exists>f. py_float rt (snd (items ! i)) = Inr f \<and>
          effects ! i = py_dict [(''name'', fst (items ! i)), (''confidence'', PFloat f)]"
    by auto
  have "\<forall>i<length effects. serializable rt (effects ! i)"
  proof (intro allI impI)
    fix i assume i: "i < length effects"
    with l e obtain f where
      "effects ! i = py_dict [(''name'', fst (items ! i)), (''confidence'', PFloat f)]"
      by auto
    moreover from names i l have "serializable rt (fst (items ! i))"
      by (simp add: list_all_length)
    ultimately show "serializable rt (effects ! i)" by simp
  qed
  then show ?thesis by (simp add: list_all_length)
qed

lemma openamp_loop_serializable:
  assumes "openamp_loop rt items [] = Inr effects"
    and names: "list_all (\<lambda>kv. serializable rt (fst kv)) items"
  shows "list_all (serializable rt) effects"
proof -
  from openamp_loop_Inr [OF assms(1)] have
    l: "length effects = length items" and
    e: "\<forall>i<length items. \<exists>f. py_float rt (snd (items ! i)) = Inr f \<and>
          effects ! i = py_dict [(''name'', fst (items ! i)), (''confidence'', PFloat f)]"
    by auto
  have "\<forall>i<length effects. serializable rt (effects ! i)"
  proof (intro allI impI)
    fix i assume i: "i < length effects"
    with l e obtain f where
      "effects ! i = py_dict [(''name'', fst (items ! i)), (''confidence'', PFloat f)]"
      by auto
    moreover from names i l have "serializable rt (fst (items ! i))"
      by (simp add: list_all_length)
    ultimately show "serializable rt (effects ! i)" by simp
  qed
  then show ?thesis by (simp add: list_all_length)
qed

lemma fx_encoder_embeddings_copied:
  assumes "status (fx_encoder_main rt argv ex lib) = 0"
  shows "\<exists>enc result effects.
      fx_from_pretrained lib = Inr enc \<and>
      analyze lib enc (str_path rt (argv ! 1)) = Inr result \<and>
      printed (fx_encoder_main rt argv ex lib) =
        [py_dict [(''effects'', PList effects),
          (''embeddings'',
           case doc_field result ''embeddings'' of Some v \<Rightarrow> v | None \<Rightarrow> PList [])]]"
proof -
  from fx_encoder_main_success [OF assms] obtain enc result raw items effects embeddings where
    h: "fx_from_pretrained lib = Inr enc"
       "analyze lib enc (str_path rt (argv ! 1)) = Inr result"
       "py_get result ''embeddings'' (PList []) = Inr embeddings"
       "printed (fx_encoder_main rt argv ex lib) =
          [py_dict [(''effects'', PList effects), (''embeddings'', embeddings)]]"
    by blast
  from h(3) have "embeddings =
     (case doc_field result ''embeddings'' of Some v \<Rightarrow> v | None \<Rightarrow> PList [])"
    by (cases result) auto
  with h show ?thesis by blast
qed

lemma openamp_encodings_copied:
  assumes "status (openamp_main rt argv ex lib) = 0"
  shows "\<exists>audio sr enc result effects.
      librosa_load lib (str_path rt (argv ! 1)) = Inr (audio, sr) \<and>
      openamp_from_pretrained lib = Inr enc \<and>
      openamp_extract lib enc audio sr = Inr result \<and>
      printed (openamp_main rt argv ex lib) =
        [py_dict [(''effects'', PList effects),
          (''embeddings'',
           case doc_field result ''encodings'' of Some v \<Rightarrow> v | None \<Rightarrow> PList [])]]"
proof -
  from openamp_main_success [OF assms]
  obtain audio sr enc result raw items effects encodings where
    h: "librosa_load lib (str_path rt (argv ! 1)) = Inr (audio, sr)"
       "openamp_from_pretrained lib = Inr enc"
       "openamp_extract lib enc audio sr = Inr result"
       "py_get result ''encodings'' (PList []) = Inr encodings"
       "printed (openamp_main rt argv ex lib) =
          [py_dict [(''effects'', PList effects), (''embeddings'', encodings)]]"
    by blast
  from h(4) have "encodings =
     (case doc_field result ''encodings'' of Some v \<Rightarrow> v | None \<Rightarrow> PList [])"
    by (cases result) auto
  with h show ?thesis by blast
qed

lemma llm2fx_embeddings_empty:
  assumes "status (llm2fx_main rt argv ex lib) = 0"
  shows "\<exists>effects. printed (llm2fx_main rt argv ex lib) =
        [py_dict [(''effects'', PList effects), (''embeddings'', PList [])]]"
  using llm2fx_main_success [OF assms] by blast

lemma fx_encoder_embeddings_absent:
  assumes "2 \<le> length argv" "ex (str_path rt (argv ! 1)) = Some True"
    "import_fx_encoder lib = Inr ()" "fx_from_pretrained lib = Inr enc"
    "analyze lib enc (str_path rt (argv ! 1)) = Inr (PDict kvs)"
    "map_of kvs (PStr ''embeddings'') = None"
    "py_items (case map_of kvs (PStr ''effects'') of Some v \<Rightarrow> v | None \<Rightarrow> PDict []) = Inr items"
    "fx_encoder_loop rt items [] = Inr effects"
    "list_all (\<lambda>kv. serializable rt (fst kv)) items"
  shows "fx_encoder_main rt argv ex lib =
     \<lparr>printed = [py_dict [(''effects'', PList effects), (''embeddings'', PList [])]],
      status = 0\<rparr>"
proof -
  have "fx_encoder_body rt lib (str_path rt (argv ! 1)) [] =
     (Inr (), [py_dict [(''effects'', PList effects), (''embeddings'', PList [])]])"
    using assms(6,7,8) fx_encoder_loop_serializable [OF assms(8,9)]
    by (subst fx_encoder_body_returns [OF assms(3,4,5)])
      (simp add: bind_exn_def json_dumps_def)
  with assms(1,2) show ?thesis
    by (simp add: fx_encoder_main_def)
qed

lemma openamp_encodings_absent:
  assumes "2 \<le> length argv" "ex (str_path rt (argv ! 1)) = Some True"
    "import_librosa lib = Inr ()" "import_openamp lib = Inr ()"
    "librosa_load lib (str_path rt (argv ! 1)) = Inr (audio, sr)"
    "openamp_from_pretrained lib = Inr enc"
    "openamp_extract lib enc audio sr = Inr (PDict kvs)"
    "map_of kvs (PStr ''encodings'') = None"
    "py_items (case map_of kvs (PStr ''detected_effects'') of Some v \<Rightarrow> v | None \<Rightarrow> PDict []) =
       Inr items"
    "openamp_loop rt items [] = Inr effects"
    "list_all (\<lambda>kv. serializable rt (fst kv)) items"
  shows "openamp_main rt argv ex lib =
     \<lparr>printed = [py_dict [(''effects'', PList effects), (''embeddings'', PList [])]],
      status = 0\<rparr>"
proof -
  have "openamp_body rt lib (str_path rt (argv ! 1)) [] =
     (Inr (), [py_dict [(''effects'', PList effects), (''embeddings'', PList [])]])"
    using assms(8,9,10) openamp_loop_serializable [OF assms(10,11)]
    by (subst openamp_body_returns [OF assms(3,4,5,6,7)])
      (simp add: bind_exn_def json_dumps_def)
  with assms(1,2) show ?thesis
    by (simp add: openamp_main_def)
qed

text \<open>
  Claim C8. In a run that exits with status 0, \<^verbatim>\<open>fx_encoder_detect.py\<close> prints under
  \<^verbatim>\<open>embeddings\<close> the value the raw result has under \<^verbatim>\<open>embeddings\<close>, \<^verbatim>\<open>openamp_detect.py\<close> the
  value it has under \<^verbatim>\<open>encodings\<close>, each the empty array when the raw result has no such
  key, and \<^verbatim>\<open>llm2fx_detect.py\<close> always the empty array. A raw result without the key raises
  nothing: when the effects of the raw mapping convert and their names are values that
  \<^verbatim>\<open>json.dumps\<close> writes (every string is), the run prints the detection result with the empty
  array and exits with status 0.
\<close>

theorem embeddings_per_variant:
  "(status (fx_encoder_main rt argv ex libA) = 0 \<longrightarrow>
     (\<exists>enc result effects.
        fx_from_pretrained libA = Inr enc \<and>
        analyze libA enc (str_path rt (argv ! 1)) = Inr result \<and>
        printed (fx_encoder_main rt argv ex libA) =
          [py_dict [(''effects'', PList effects),
            (''embeddings'',
             case doc_field result ''embeddings'' of Some v \<Rightarrow> v | None \<Rightarrow> PList [])]])) \<and>
   (status (openamp_main rt argv ex libC) = 0 \<longrightarrow>
     (\<exists>audio sr enc result effects.
        librosa_load libC (str_path rt (argv ! 1)) = Inr (audio, sr) \<and>
        openamp_from_pretrained libC = Inr enc \<and>
        openamp_extract libC enc audio sr = Inr result \<and>
        printed (openamp_main rt argv ex libC) =
          [py_dict [(''effects'', PList effects),
            (''embeddings'',
             case doc_field result ''encodings'' of Some v \<Rightarrow> v | None \<Rightarrow> PList [])]])) \<and>
   (status (llm2fx_main rt argv ex libB) = 0 \<longrightarrow>
     (\<exists>effects. printed (llm2fx_main rt argv ex libB) =
        [py_dict [(''effects'', PList effects), (''embeddings'', PList [])]])) \<and>
   (2 \<le> length argv \<and> ex (str_path rt (argv ! 1)) = Some True \<and>
    import_fx_encoder libA = Inr () \<and> fx_from_pretrained libA = Inr encA \<and>
    analyze libA encA (str_path rt (argv ! 1)) = Inr (PDict kvsA) \<and>
    map_of kvsA (PStr ''embeddings'') = None \<and>
    py_items (case map_of kvsA (PStr ''effects'') of Some v \<Rightarrow> v | None \<Rightarrow> PDict []) = Inr itemsA \<and>
    fx_encoder_loop rt itemsA [] = Inr effectsA \<and>
    list_all (\<lambda>kv. serializable rt (fst kv)) itemsA \<longrightarrow>
      fx_encoder_main rt argv ex libA =
        \<lparr>printed = [py_dict [(''effects'', PList effectsA), (''embeddings'', PList [])]],
         status = 0\<rparr>) \<and>
   (2 \<le> length argv \<and> ex (str_path rt (argv ! 1)) = Some True \<and>
    import_librosa libC = Inr () \<and> import_openamp libC = Inr () \<and>
    librosa_load libC (str_path rt (argv ! 1)) = Inr (audioC, srC) \<and>
    openamp_from_pretrained libC = Inr encC \<and>
    openamp_extract libC encC audioC srC = Inr (PDict kvsC) \<and>
    map_of kvsC (PStr ''encodings'') = None \<and>
    py_items (case map_of kvsC (PStr ''detected_effects'') of Some v \<Rightarrow> v | None \<Rightarrow> PDict []) =
      Inr itemsC \<and>
    openamp_loop rt itemsC [] = Inr effectsC \<and>
    list_all (\<lambda>kv. serializable rt (fst kv)) itemsC \<longrightarrow>
      openamp_main rt argv ex libC =
        \<lparr>printed = [py_dict [(''effects'', PList effectsC), (''embeddings'', PList [])]],
         status = 0\<rparr>)"
  using fx_encoder_embeddings_copied [of rt argv ex libA]
    openamp_encodings_copied [of rt argv ex libC]
    llm2fx_embeddings_empty [of rt argv ex libB]
    fx_encoder_embeddings_absent [where argv = argv and ex = ex and rt = rt and lib = libA
      and enc = encA and kvs = kvsA and items = itemsA and effects = effectsA]
    openamp_encodings_absent [where argv = argv and ex = ex and rt = rt and lib = libC
      and audio = audioC and sr = srC and enc = encC and kvs = kvsC and items = itemsC
      and effects = effectsC]
  by blast


text \<open>
  Claim C8 on raw results with and without the key.
\<close>

theorem embeddings_per_variant_witness:
  "fx_encoder_main example_runtime [''detect.py'', ''song.wav''] every_path
      (fx_encoder_returning (py_dict [(''effects'', py_dict [(''reverb'', PInt 1)]),
         (''embeddings'', PList [PFloat (Finite (1/4)), PFloat (Finite (3/4))])])) =
     \<lparr>printed = [py_dict [(''effects'',
          PList [py_dict [(''name'', PStr ''reverb''), (''confidence'', PFloat (Finite 1))]]),
        (''embeddings'', PList [PFloat (Finite (1/4)), PFloat (Finite (3/4))])]],
      status = 0\<rparr> \<and>
   openamp_main example_runtime [''detect.py'', ''song.wav''] every_path
      (openamp_returning (py_dict [(''detected_effects'', py_dict [(''reverb'', PInt 1)]),
         (''encodings'', PList [PFloat (Finite (1/4)), PFloat (Finite (3/4))])])) =
     \<lparr>printed = [py_dict [(''effects'',
          PList [py_dict [(''name'', PStr ''reverb''), (''confidence'', PFloat (Finite 1))]]),
        (''embeddings'', PList [PFloat (Finite (1/4)), PFloat (Finite (3/4))])]],
      status = 0\<rparr> \<and>
   llm2fx_main example_runtime [''detect.py'', ''song.wav''] every_path
      (llm2fx_returning (py_dict [(''effect_chain'', PList []),
         (''embeddings'', PList [PFloat (Finite (1/4))])])) =
     \<lparr>printed = [py_dict [(''effects'', PList []), (''embeddings'', PList [])]],
      status = 0\<rparr> \<and>
   fx_encoder_main example_runtime [''detect.py'', ''song.wav''] every_path
      (fx_encoder_returning (py_dict [(''effects'', py_dict [(''reverb'', PInt 1)])])) =
     \<lparr>printed = [py_dict [(''effects'',
          PList [py_dict [(''name'', PStr ''reverb''), (''confidence'', PFloat (Finite 1))]]),
        (''embeddings'', PList [])]],
      status = 0\<rparr> \<and>
   openamp_main example_runtime [''detect.py'', ''song.wav''] every_path
      (openamp_returning (py_dict [(''detected_effects'', py_dict [(''reverb'', PInt 1)])])) =
     \<lparr>printed = [py_dict [(''effects'',
          PList [py_dict [(''name'', PStr ''reverb''), (''confidence'', PFloat (Finite 1))]]),
        (''embeddings'', PList [])]],
      status = 0\<rparr>"
proof -
  let ?argv = "[''detect.py'', ''song.wav'']"
  let ?fa = "py_dict [(''effects'', py_dict [(''reverb'', PInt 1)]),
         (''embeddings'', PList [PFloat (Finite (1/4)), PFloat (Finite (3/4))])]"
  let ?fc = "py_dict [(''detected_effects'', py_dict [(''reverb'', PInt 1)]),
         (''encodings'', PList [PFloat (Finite (1/4)), PFloat (Finite (3/4))])]"
  let ?fb = "py_dict [(''effect_chain'', PList []),
         (''embeddings'', PList [PFloat (Finite (1/4))])]"
  let ?eff = "[py_dict [(''name'', PStr ''reverb''), (''confidence'', PFloat (Finite 1))]]"
  have full: "fx_encoder_main example_runtime ?argv every_path (fx_encoder_returning ?fa) =
     \<lparr>printed = [py_dict [(''effects'', PList ?eff),
        (''embeddings'', PList [PFloat (Finite (1/4)), PFloat (Finite (3/4))])]],
      status = 0\<rparr>"
    "openamp_main example_runtime ?argv every_path (openamp_returning ?fc) =
     \<lparr>printed = [py_dict [(''effects'', PList ?eff),
        (''embeddings'', PList [PFloat (Finite (1/4)), PFloat (Finite (3/4))])]],
      status = 0\<rparr>"
    "llm2fx_main example_runtime ?argv every_path (llm2fx_returning ?fb) =
     \<lparr>printed = [py_dict [(''effects'', PList []), (''embeddings'', PList [])]],
      status = 0\<rparr>"
    by (simp_all add: fx_encoder_main_def openamp_main_def llm2fx_main_def every_path_def
        fx_encoder_returning_run openamp_returning_run llm2fx_returning_run
        bind_exn_def json_dumps_def example_runtime_def)
  have absent:
    "fx_encoder_main example_runtime ?argv every_path
       (fx_encoder_returning (py_dict [(''effects'', py_dict [(''reverb'', PInt 1)])])) =
     \<lparr>printed = [py_dict [(''effects'', PList ?eff), (''embeddings'', PList [])]], status = 0\<rparr> \<and>
     openamp_main example_runtime ?argv every_path
       (openamp_returning (py_dict [(''detected_effects'', py_dict [(''reverb'', PInt 1)])])) =
     \<lparr>printed = [py_dict [(''effects'', PList ?eff), (''embeddings'', PList [])]], status = 0\<rparr>"
    using embeddings_per_variant [of example_runtime ?argv every_path
        "fx_encoder_returning (py_dict [(''effects'', py_dict [(''reverb'', PInt 1)])])"
        "openamp_returning (py_dict [(''detected_effects'', py_dict [(''reverb'', PInt 1)])])"
        "llm2fx_returning ?fb" "()" "[(PStr ''effects'', py_dict [(''reverb'', PInt 1)])]"
        "[(PStr ''reverb'', PInt 1)]" ?eff "()" "()" "()"
        "[(PStr ''detected_effects'', py_dict [(''reverb'', PInt 1)])]"
        "[(PStr ''reverb'', PInt 1)]" ?eff]
    by (simp add: every_path_def fx_encoder_returning_def openamp_returning_def
        bind_exn_def example_runtime_def)
  from full absent show ?thesis by simp
qed


section \<open>Confidence values\<close>

lemma fx_encoder_main_effects:
  assumes "status (fx_encoder_main rt argv ex lib) = 0"
  shows "\<exists>enc result raw items effects embeddings.
      fx_from_pretrained lib = Inr enc \<and>
      analyze lib enc (str_path rt (argv ! 1)) = Inr result \<and>
      py_get result ''effects'' (PDict []) = Inr raw \<and>
      py_items raw = Inr items \<and>
      printed (fx_encoder_main rt argv ex lib) =
        [py_dict [(''effects'', PList effects), (''embeddings'', embeddings)]] \<and>
      length effects = length items \<and>
      (\<forall>i<length items. \<exists>f. py_float rt (snd (items ! i)) = Inr f \<and>
         effects ! i = py_dict [(''name'', fst (items ! i)), (''confidence'', PFloat f)])"
proof -
  from fx_encoder_main_success [OF assms] obtain enc result raw items effects embeddings where
    h: "fx_from_pretrained lib = Inr enc"
       "analyze lib enc (str_path rt (argv ! 1)) = Inr result"
       "py_get result ''effects'' (PDict []) = Inr raw"
       "py_items raw = Inr items"
       "fx_encoder_loop rt items [] = Inr effects"
       "printed (fx_encoder_main rt argv ex lib) =
          [py_dict [(''effects'', PList effects), (''embeddings'', embeddings)]]"
    by blast
  from fx_encoder_loop_Inr [OF h(5)] have
    "length effects = length items"
    "\<forall>i<length items. \<exists>f. py_float rt (snd (items ! i)) = Inr f \<and>
         effects ! i = py_dict [(''name'', fst (items ! i)), (''confidence'', PFloat f)]"
    by auto
  with h show ?thesis by blast
qed

lemma openamp_main_effects:
  assumes "status (openamp_main rt argv ex lib) = 0"
  shows "\<exists>audio sr enc result raw items effects encodings.
      librosa_load lib (str_path rt (argv ! 1)) = Inr (audio, sr) \<and>
      openamp_from_pretrained lib = Inr enc \<and>
      openamp_extract lib enc audio sr = Inr result \<and>
      py_get result ''detected_effects'' (PDict []) = Inr raw \<and>
      py_items raw = Inr items \<and>
      printed (openamp_main rt argv ex lib) =
        [py_dict [(''effects'', PList effects), (''embeddings'', encodings)]] \<and>
      length effects = length items \<and>
      (\<forall>i<length items. \<exists>f. py_float rt (snd (items ! i)) = Inr f \<and>
         effects ! i = py_dict [(''name'', fst (items ! i)), (''confidence'', PFloat f)])"
proof -
  from openamp_main_success [OF assms]
  obtain audio sr enc result raw items effects encodings where
    h: "librosa_load lib (str_path rt (argv ! 1)) = Inr (audio, sr)"
       "openamp_from_pretrained lib = Inr enc"
       "openamp_extract lib enc audio sr = Inr result"
       "py_get result ''detected_effects'' (PDict []) = Inr raw"
       "py_items raw = Inr items"
       "openamp_loop rt items [] = Inr effects"
       "printed (openamp_main rt argv ex lib) =
          [py_dict [(''effects'', PList effects), (''embeddings'', encodings)]]"
    by blast
  from openamp_loop_Inr [OF h(6)] have
    "length effects = length items"
    "\<forall>i<length items. \<exists>f. py_float rt (snd (items ! i)) = Inr f \<and>
         effects ! i = py_dict [(''name'', fst (items ! i)), (''confidence'', PFloat f)]"
    by auto
  with h show ?thesis by blast
qed

lemma fx_encoder_confidence_float:
  assumes "status (fx_encoder_main rt argv ex lib) = 0"
  shows "\<exists>enc result raw items effects embeddings.
      fx_from_pretrained lib = Inr enc \<and>
      analyze lib enc (str_path rt (argv ! 1)) = Inr result \<and>
      py_get result ''effects'' (PDict []) = Inr raw \<and>
      py_items raw = Inr items \<and>
      printed (fx_encoder_main rt argv ex lib) =
        [py_dict [(''effects'', PList effects), (''embeddings'', embeddings)]] \<and>
      length effects = length items \<and>
      (\<forall>i<length items. \<exists>f. py_float rt (snd (items ! i)) = Inr f \<and>
         doc_field (effects ! i) ''confidence'' = Some (PFloat f))"
proof -
  from fx_encoder_main_effects [OF assms] obtain enc result raw items effects embeddings where
    h: "fx_from_pretrained lib = Inr enc"
       "analyze lib enc (str_path rt (argv ! 1)) = Inr result"
       "py_get result ''effects'' (PDict []) = Inr raw"
       "py_items raw = Inr items"
       "printed (fx_encoder_main rt argv ex lib) =
          [py_dict [(''effects'', PList effects), (''embeddings'', embeddings)]]"
       "length effects = length items"
       "\<forall>i<length items. \<exists>f. py_float rt (snd (items ! i)) = Inr f \<and>
         effects ! i = py_dict [(''name'', fst (items ! i)), (''confidence'', PFloat f)]"
    by blast
  from h(7) have "\<forall>i<length items. \<exists>f. py_float rt (snd (items ! i)) = Inr f \<and>
         doc_field (effects ! i) ''confidence'' = Some (PFloat f)"
    by fastforce
  with h show ?thesis by blast
qed

lemma openamp_confidence_float:
  assumes "status (openamp_main rt argv ex lib) = 0"
  shows "\<exists>audio sr enc result raw items effects encodings.
      librosa_load lib (str_path rt (argv ! 1)) = Inr (audio, sr) \<and>
      openamp_from_pretrained lib = Inr enc \<and>
      openamp_extract lib enc audio sr = Inr result \<and>
      py_get result ''detected_effects'' (PDict []) = Inr raw \<and>
      py_items raw = Inr items \<and>
      printed (openamp_main rt argv ex lib) =
        [py_dict [(''effects'', PList effects), (''embeddings'', encodings)]] \<and>
      length effects = length items \<and>
      (\<forall>i<length items. \<exists>f. py_float rt (snd (items ! i)) = Inr f \<and>
         doc_field (effects ! i) ''confidence'' = Some (PFloat f))"
proof -
  from openamp_main_effects [OF assms]
  obtain audio sr enc result raw items effects encodings where
    h: "librosa_load lib (str_path rt (argv ! 1)) = Inr (audio, sr)"
       "openamp_from_pretrained lib = Inr enc"
       "openamp_extract lib enc audio sr = Inr result"
       "py_get result ''detected_effects'' (PDict []) = Inr raw"
       "py_items raw = Inr items"
       "printed (openamp_main rt argv ex lib) =
          [py_dict [(''effects'', PList effects), (''embeddings'', encodings)]]"
       "length effects = length items"
       "\<forall>i<length items. \<exists>f. py_float rt (snd (items ! i)) = Inr f \<and>
         effects ! i = py_dict [(''name'', fst (items ! i)), (''confidence'', PFloat f)]"
    by blast
  from h(8) have "\<forall>i<length items. \<exists>f. py_float rt (snd (items ! i)) = Inr f \<and>
         doc_field (effects ! i) ''confidence'' = Some (PFloat f)"
    by fastforce
  with h show ?thesis by blast
qed

lemma llm2fx_confidence_passed:
  assumes "status (llm2fx_main rt argv ex lib) = 0"
  shows "\<exists>p result chain entries effects.
      llm2fx_from_pretrained lib = Inr p \<and>
      analyze_audio lib p (str_path rt (argv ! 1)) = Inr result \<and>
      py_get result ''effect_chain'' (PList []) = Inr chain \<and>
      py_iter chain = Inr entries \<and>
      printed (llm2fx_main rt argv ex lib) =
        [py_dict [(''effects'', PList effects), (''embeddings'', PList [])]] \<and>
      length effects = length entries \<and>
      (\<forall>i<length entries.
         doc_field (effects ! i) ''confidence'' =
           Some (case doc_field (entries ! i) ''confidence'' of
                   Some v \<Rightarrow> v | None \<Rightarrow> PFloat (Finite (1/2))))"
proof -
  from llm2fx_main_effects [OF assms] obtain p result chain entries effects where
    h: "llm2fx_from_pretrained lib = Inr p"
       "analyze_audio lib p (str_path rt (argv ! 1)) = Inr result"
       "py_get result ''effect_chain'' (PList []) = Inr chain"
       "py_iter chain = Inr entries"
       "printed (llm2fx_main rt argv ex lib) =
          [py_dict [(''effects'', PList effects), (''embeddings'', PList [])]]"
       "length effects = length entries"
       "\<forall>i<length entries. llm2fx_effect (entries ! i) = Inr (effects ! i)"
    by blast
  from h(7) have "\<forall>i<length entries.
         doc_field (effects ! i) ''confidence'' =
           Some (case doc_field (entries ! i) ''confidence'' of
                   Some v \<Rightarrow> v | None \<Rightarrow> PFloat (Finite (1/2)))"
    using llm2fx_effect_fields(2) by blast
  with h show ?thesis by blast
qed

text \<open>
  Claim C2, as amended. In a run that exits with status 0, \<^verbatim>\<open>fx_encoder_detect.py\<close> and
  \<^verbatim>\<open>openamp_detect.py\<close> print one effect for each item of the raw mapping, its confidence
  the float that \<^verbatim>\<open>float\<close> returns on the raw value. \<^verbatim>\<open>llm2fx_detect.py\<close> prints one effect for
  each entry of the raw effect chain, its confidence the raw value of the entry unchanged,
  or 0.5 when the entry has no \<^verbatim>\<open>confidence\<close> key.
\<close>

theorem confidence_coercion:
  "(status (fx_encoder_main rt argv ex libA) = 0 \<longrightarrow>
     (\<exists>enc result raw items effects embeddings.
        fx_from_pretrained libA = Inr enc \<and>
        analyze libA enc (str_path rt (argv ! 1)) = Inr result \<and>
        py_get result ''effects'' (PDict []) = Inr raw \<and>
        py_items raw = Inr items \<and>
        printed (fx_encoder_main rt argv ex libA) =
          [py_dict [(''effects'', PList effects), (''embeddings'', embeddings)]] \<and>
        length effects = length items \<and>
        (\<forall>i<length items. \<exists>f. py_float rt (snd (items ! i)) = Inr f \<and>
           doc_field (effects ! i) ''confidence'' = Some (PFloat f)))) \<and>
   (status (openamp_main rt argv ex libC) = 0 \<longrightarrow>
     (\<exists>audio sr enc result raw items effects encodings.
        librosa_load libC (str_path rt (argv ! 1)) = Inr (audio, sr) \<and>
        openamp_from_pretrained libC = Inr enc \<and>
        openamp_extract libC enc audio sr = Inr result \<and>
        py_get result ''detected_effects'' (PDict []) = Inr raw \<and>
        py_items raw = Inr items \<and>
        printed (openamp_main rt argv ex libC) =
          [py_dict [(''effects'', PList effects), (''embeddings'', encodings)]] \<and>
        length effects = length items \<and>
        (\<forall>i<length items. \<exists>f. py_float rt (snd (items ! i)) = Inr f \<and>
           doc_field (effects ! i) ''confidence'' = Some (PFloat f)))) \<and>
   (status (llm2fx_main rt argv ex libB) = 0 \<longrightarrow>
     (\<exists>p result chain entries effects.
        llm2fx_from_pretrained libB = Inr p \<and>
        analyze_audio libB p (str_path rt (argv ! 1)) = Inr result \<and>
        py_get result ''effect_chain'' (PList []) = Inr chain \<and>
        py_iter chain = Inr entries \<and>
        printed (llm2fx_main rt argv ex libB) =
          [py_dict [(''effects'', PList effects), (''embeddings'', PList [])]] \<and>
        length effects = length entries \<and>
        (\<forall>i<length entries.
           doc_field (effects ! i) ''confidence'' =
             Some (case doc_field (entries ! i) ''confidence'' of
                     Some v \<Rightarrow> v | None \<Rightarrow> PFloat (Finite (1/2))))))"
  using fx_encoder_confidence_float [of rt argv ex libA]
    openamp_confidence_float [of rt argv ex libC]
    llm2fx_confidence_passed [of rt argv ex libB]
  by blast

text \<open>
  Claim C2 as it is written fails for \<^verbatim>\<open>llm2fx_detect.py\<close>: the integer confidence of the
  entry \<^verbatim>\<open>{"type": "reverb", "confidence": 1}\<close> is printed as the integer it was.
\<close>

theorem confidence_coercion_counterexample:
  "llm2fx_main example_runtime [''llm2fx_detect.py'', ''song.wav''] every_path
     (llm2fx_returning (py_dict [(''effect_chain'',
        PList [py_dict [(''type'', PStr ''reverb''), (''confidence'', PInt 1)]])])) =
   \<lparr>printed = [py_dict [(''effects'', PList [py_dict [(''name'', PStr ''reverb''),
        (''confidence'', PInt 1), (''parameters'', PDict [])]]),
        (''embeddings'', PList [])]], status = 0\<rparr> \<and>
   \<not> is_float (Some (PInt 1))"
  by (simp add: llm2fx_main_def llm2fx_returning_run example_runtime_def every_path_def
      bind_exn_def llm2fx_effect_def json_dumps_def)


text \<open>
  Claim C2, as amended, on an integer and a truth value that become floats and on an
  integer that stays one.
\<close>

theorem confidence_coercion_witness:
  "fx_encoder_main example_runtime [''detect.py'', ''song.wav''] every_path
      (fx_encoder_returning (py_dict [(''effects'', py_dict [(''reverb'', PInt 1)])])) =
     \<lparr>printed = [py_dict [(''effects'',
          PList [py_dict [(''name'', PStr ''reverb''), (''confidence'', PFloat (Finite 1))]]),
        (''embeddings'', PList [])]],
      status = 0\<rparr> \<and>
   openamp_main example_runtime [''detect.py'', ''song.wav''] every_path
      (openamp_returning (py_dict [(''detected_effects'', py_dict [(''reverb'', PBool True)])])) =
     \<lparr>printed = [py_dict [(''effects'',
          PList [py_dict [(''name'', PStr ''reverb''), (''confidence'', PFloat (Finite 1))]]),
        (''embeddings'', PList [])]],
      status = 0\<rparr> \<and>
   llm2fx_main example_runtime [''detect.py'', ''song.wav''] every_path
      (llm2fx_returning (py_dict [(''effect_chain'',
         PList [py_dict [(''type'', PStr ''delay''), (''confidence'', PInt 1)],
                py_dict [(''type'', PStr ''reverb'')]])])) =
     \<lparr>printed = [py_dict [(''effects'',
          PList [py_dict [(''name'', PStr ''delay''), (''confidence'', PInt 1),
                   (''parameters'', PDict [])],
                 py_dict [(''name'', PStr ''reverb''), (''confidence'', PFloat (Finite (1/2))),
                   (''parameters'', PDict [])]]),
        (''embeddings'', PList [])]],
      status = 0\<rparr>"
  using confidence_coercion [of example_runtime "[''detect.py'', ''song.wav'']" every_path
      "fx_encoder_returning (py_dict [(''effects'', py_dict [(''reverb'', PInt 1)])])"
      "openamp_returning (py_dict [(''detected_effects'', py_dict [(''reverb'', PBool True)])])"
      "llm2fx_returning (py_dict [(''effect_chain'',
         PList [py_dict [(''type'', PStr ''delay''), (''confidence'', PInt 1)],
                py_dict [(''type'', PStr ''reverb'')]])])"]
  by (simp add: fx_encoder_main_def openamp_main_def llm2fx_main_def every_path_def
        fx_encoder_returning_run openamp_returning_run llm2fx_returning_run
        bind_exn_def json_dumps_def example_runtime_def llm2fx_effect_def)

section \<open>Shape of the detection result\<close>

lemma llm2fx_effect_raw:
  assumes "llm2fx_effect e = Inr d"
  shows "d = py_dict
     [(''name'', case doc_field e ''type'' of Some v \<Rightarrow> v | None \<Rightarrow> PStr ''unknown''),
      (''confidence'',
       case doc_field e ''confidence'' of Some v \<Rightarrow> v | None \<Rightarrow> PFloat (Finite (1/2))),
      (''parameters'', case doc_field e ''params'' of Some v \<Rightarrow> v | None \<Rightarrow> PDict [])]"
  using assms by (auto simp: llm2fx_effect_Inr)

lemma llm2fx_result_shape:
  assumes "status (llm2fx_main rt argv ex lib) = 0"
  shows "\<exists>p result chain entries effects.
      llm2fx_from_pretrained lib = Inr p \<and>
      analyze_audio lib p (str_path rt (argv ! 1)) = Inr result \<and>
      py_get result ''effect_chain'' (PList []) = Inr chain \<and>
      py_iter chain = Inr entries \<and>
      printed (llm2fx_main rt argv ex lib) =
        [py_dict [(''effects'', PList effects), (''embeddings'', PList [])]] \<and>
      length effects = length entries \<and>
      (\<forall>i<length entries.
         effects ! i = py_dict
           [(''name'',
             case doc_field (entries ! i) ''type'' of
               Some v \<Rightarrow> v | None \<Rightarrow> PStr ''unknown''),
            (''confidence'',
             case doc_field (entries ! i) ''confidence'' of
               Some v \<Rightarrow> v | None \<Rightarrow> PFloat (Finite (1/2))),
            (''parameters'',
             case doc_field (entries ! i) ''params'' of
               Some v \<Rightarrow> v | None \<Rightarrow> PDict [])])"
proof -
  from llm2fx_main_effects [OF assms] obtain p result chain entries effects where
    h: "llm2fx_from_pretrained lib = Inr p"
       "analyze_audio lib p (str_path rt (argv ! 1)) = Inr result"
       "py_get result ''effect_chain'' (PList []) = Inr chain"
       "py_iter chain = Inr entries"
       "printed (llm2fx_main rt argv ex lib) =
          [py_dict [(''effects'', PList effects), (''embeddings'', PList [])]]"
       "length effects = length entries"
       "\<forall>i<length entries. llm2fx_effect (entries ! i) = Inr (effects ! i)"
    by blast
  from h(7) have "\<forall>i<length entries.
         effects ! i = py_dict
           [(''name'',
             case doc_field (entries ! i) ''type'' of
               Some v \<Rightarrow> v | None \<Rightarrow> PStr ''unknown''),
            (''confidence'',
             case doc_field (entries ! i) ''confidence'' of
               Some v \<Rightarrow> v | None \<Rightarrow> PFloat (Finite (1/2))),
            (''parameters'',
             case doc_field (entries ! i) ''params'' of
               Some v \<Rightarrow> v | None \<Rightarrow> PDict [])]"
    using llm2fx_effect_raw by blast
  with h show ?thesis by blast
qed

text \<open>
  Claim C3, as amended. A run that exits with status 0 prints one document with the keys
  \<^verbatim>\<open>effects\<close>, an array, and \<^verbatim>\<open>embeddings\<close>, and no other key, so no \<^verbatim>\<open>error\<close>. The array has one
  element for each element of the raw effect collection. In \<^verbatim>\<open>fx_encoder_detect.py\<close> and
  \<^verbatim>\<open>openamp_detect.py\<close> the element has \<^verbatim>\<open>name\<close>, the key of the raw mapping unchanged (a string
  when that key is a string), and \<^verbatim>\<open>confidence\<close>, the float that \<^verbatim>\<open>float\<close> returns on the raw
  value, a number. In \<^verbatim>\<open>llm2fx_detect.py\<close> the element has \<^verbatim>\<open>name\<close>, \<^verbatim>\<open>confidence\<close> and
  \<^verbatim>\<open>parameters\<close>, holding the values the raw entry has under \<^verbatim>\<open>type\<close>, \<^verbatim>\<open>confidence\<close> and
  \<^verbatim>\<open>params\<close> unchanged, or \<^verbatim>\<open>unknown\<close>, 0.5 and the empty mapping where the entry has no such
  key; so its name is a string and its confidence a number when the raw value is one or
  is absent.
\<close>

theorem detection_result_shape:
  "(status (fx_encoder_main rt argv ex libA) = 0 \<longrightarrow>
     (\<exists>enc result raw items effects embeddings.
        fx_from_pretrained libA = Inr enc \<and>
        analyze libA enc (str_path rt (argv ! 1)) = Inr result \<and>
        py_get result ''effects'' (PDict []) = Inr raw \<and>
        py_items raw = Inr items \<and>
        printed (fx_encoder_main rt argv ex libA) =
          [py_dict [(''effects'', PList effects), (''embeddings'', embeddings)]] \<and>
        length effects = length items \<and>
        (\<forall>i<length items. \<exists>f. py_float rt (snd (items ! i)) = Inr f \<and>
           effects ! i =
             py_dict [(''name'', fst (items ! i)), (''confidence'', PFloat f)]))) \<and>
   (status (openamp_main rt argv ex libC) = 0 \<longrightarrow>
     (\<exists>audio sr enc result raw items effects encodings.
        librosa_load libC (str_path rt (argv ! 1)) = Inr (audio, sr) \<and>
        openamp_from_pretrained libC = Inr enc \<and>
        openamp_extract libC enc audio sr = Inr result \<and>
        py_get result ''detected_effects'' (PDict []) = Inr raw \<and>
        py_items raw = Inr items \<and>
        printed (openamp_main rt argv ex libC) =
          [py_dict [(''effects'', PList effects), (''embeddings'', encodings)]] \<and>
        length effects = length items \<and>
        (\<forall>i<length items. \<exists>f. py_float rt (snd (items ! i)) = Inr f \<and>
           effects ! i =
             py_dict [(''name'', fst (items ! i)), (''confidence'', PFloat f)]))) \<and>
   (status (llm2fx_main rt argv ex libB) = 0 \<longrightarrow>
     (\<exists>p result chain entries effects.
        llm2fx_from_pretrained libB = Inr p \<and>
        analyze_audio libB p (str_path rt (argv ! 1)) = Inr result \<and>
        py_get result ''effect_chain'' (PList []) = Inr chain \<and>
        py_iter chain = Inr entries \<and>
        printed (llm2fx_main rt argv ex libB) =
          [py_dict [(''effects'', PList effects), (''embeddings'', PList [])]] \<and>
        length effects = length entries \<and>
        (\<forall>i<length entries.
           effects ! i = py_dict
             [(''name'',
               case doc_field (entries ! i) ''type'' of
                 Some v \<Rightarrow> v | None \<Rightarrow> PStr ''unknown''),
              (''confidence'',
               case doc_field (entries ! i) ''confidence'' of
                 Some v \<Rightarrow> v | None \<Rightarrow> PFloat (Finite (1/2))),
              (''parameters'',
               case doc_field (entries ! i) ''params'' of
                 Some v \<Rightarrow> v | None \<Rightarrow> PDict [])])))"
  using fx_encoder_main_effects [of rt argv ex libA]
    openamp_main_effects [of rt argv ex libC]
    llm2fx_result_shape [of rt argv ex libB]
  by blast

text \<open>
  Claim C3 as it is written fails for \<^verbatim>\<open>llm2fx_detect.py\<close>: the confidence of the entry
  \<^verbatim>\<open>{"type": "reverb", "confidence": "high"}\<close> is printed as the string it was, in a run
  that exits with status 0.
\<close>

theorem detection_result_shape_counterexample:
  "llm2fx_main example_runtime [''llm2fx_detect.py'', ''song.wav''] every_path
     (llm2fx_returning (py_dict [(''effect_chain'',
        PList [py_dict [(''type'', PStr ''reverb''), (''confidence'', PStr ''high'')]])])) =
   \<lparr>printed = [py_dict [(''effects'', PList [py_dict [(''name'', PStr ''reverb''),
        (''confidence'', PStr ''high''), (''parameters'', PDict [])]]),
        (''embeddings'', PList [])]], status = 0\<rparr> \<and>
   \<not> is_number (Some (PStr ''high''))"
  by (simp add: llm2fx_main_def llm2fx_returning_run example_runtime_def every_path_def
      bind_exn_def llm2fx_effect_def json_dumps_def)

text \<open>
  Claim C3, as amended, on a raw mapping with a string key and an integer key, on a raw
  result without effects, and on an effect chain of one entry.
\<close>

theorem detection_result_shape_witness:
  "fx_encoder_main example_runtime [''detect.py'', ''song.wav''] every_path
      (fx_encoder_returning (py_dict [(''effects'',
         PDict [(PStr ''reverb'', PFloat (Finite (9/10))), (PInt 1, PInt 0)])])) =
     \<lparr>printed = [py_dict [(''effects'',
          PList [py_dict [(''name'', PStr ''reverb''), (''confidence'', PFloat (Finite (9/10)))],
                 py_dict [(''name'', PInt 1), (''confidence'', PFloat (Finite 0))]]),
        (''embeddings'', PList [])]],
      status = 0\<rparr> \<and>
   openamp_main example_runtime [''detect.py'', ''song.wav''] every_path
      (openamp_returning (py_dict [(''encodings'', PList [PList [PFloat (Finite (1/8))]])])) =
     \<lparr>printed = [py_dict [(''effects'', PList []),
        (''embeddings'', PList [PList [PFloat (Finite (1/8))]])]],
      status = 0\<rparr> \<and>
   llm2fx_main example_runtime [''detect.py'', ''song.wav''] every_path
      (llm2fx_returning (py_dict [(''effect_chain'',
         PList [py_dict [(''type'', PStr ''delay''), (''confidence'', PFloat (Finite (7/10))),
                  (''params'', py_dict [(''time'', PInt 250)])]])])) =
     \<lparr>printed = [py_dict [(''effects'',
          PList [py_dict [(''name'', PStr ''delay''), (''confidence'', PFloat (Finite (7/10))),
                   (''parameters'', py_dict [(''time'', PInt 250)])]]),
        (''embeddings'', PList [])]],
      status = 0\<rparr>"
  using detection_result_shape [of example_runtime "[''detect.py'', ''song.wav'']" every_path
      "fx_encoder_returning (py_dict [(''effects'',
         PDict [(PStr ''reverb'', PFloat (Finite (9/10))), (PInt 1, PInt 0)])])"
      "openamp_returning (py_dict [(''encodings'', PList [PList [PFloat (Finite (1/8))]])])"
      "llm2fx_returning (py_dict [(''effect_chain'',
         PList [py_dict [(''type'', PStr ''delay''), (''confidence'', PFloat (Finite (7/10))),
                  (''params'', py_dict [(''time'', PInt 250)])]])])"]
  by (simp add: fx_encoder_main_def openamp_main_def llm2fx_main_def every_path_def
        fx_encoder_returning_run openamp_returning_run llm2fx_returning_run
        bind_exn_def json_dumps_def example_runtime_def llm2fx_effect_def)

end
